theory Spec2Isabelle
  imports Complex_Main "HOL-Library.Sublist"
begin

section \<open>Question generator\<close>

text \<open>
  The class \<open>QuestionGenerator\<close>. JavaScript numbers that the code only ever builds from
  integer operations are modelled as \<open>int\<close>. Every call of \<open>Math.random()\<close> is an input:
  a function \<open>rnd\<close> gives the value of the \<open>i\<close>-th call made after entry to the function
  being modelled, in program order; \<open>Math.random()\<close> returns a value in \<open>[0, 1)\<close>, which
  is the predicate \<open>valid_random\<close>.
\<close>

datatype difficulty = Easy | Medium | Hard

datatype question_type =
    Addition | Subtraction | Multiplication | Division | Mixed
  | Fractions | Decimals | Percentages | WordProblem | Algebra | Geometry

type_synonym random = "nat \<Rightarrow> real"

definition valid_random :: "random \<Rightarrow> bool" where
  "valid_random rnd = (\<forall>i. 0 \<le> rnd i \<and> rnd i < 1)"

text \<open>\<open>Math.floor(Math.random() * n)\<close>, for the drawn value \<open>r\<close>.\<close>

definition randomInt :: "real \<Rightarrow> int \<Rightarrow> int" where
  "randomInt r n = \<lfloor>r * of_int n\<rfloor>"

text \<open>\<open>xs[k]\<close>: an index outside the array reads \<open>undefined\<close>, here \<open>None\<close>.\<close>

definition pick :: "'a list \<Rightarrow> int \<Rightarrow> 'a option" where
  "pick xs k = (if 0 \<le> k \<and> nat k < length xs then Some (xs ! nat k) else None)"

text \<open>
  The question text of the arithmetic generators is a template string such as
  \<open>`${a} \<times> ${b} ${op2} ${c} = ?`\<close>. It is modelled by the sequence of its operands and
  operator signs, in display order; the constant suffix \<open>= ?\<close> is left out. \<open>Undefined\<close>
  is what an operator read outside the \<open>operations\<close> array would print. The text of the
  other generators is kept as an uninterpreted string.
\<close>

datatype sym = Plus | Minus | Times | DividedBy

datatype token = Num int | Op sym | Undefined

datatype question_text = Expr "token list" | Prose string

record question =
  qid :: "nat \<times> int"
  qtext :: question_text
  answer :: int
  difficulty :: difficulty
  qtype :: question_type
  timeLimit :: int
  category :: string

definition adjustDifficultyForWave :: "difficulty \<Rightarrow> int \<Rightarrow> difficulty" where
  "adjustDifficultyForWave baseDifficulty wave =
     (if wave \<le> 3 then Easy
      else if wave \<le> 6 then (if baseDifficulty = Easy then Easy else Medium)
      else if wave \<le> 10 then (if baseDifficulty = Easy then Medium else Hard)
      else Hard)"

fun getQuestionTypes :: "difficulty \<Rightarrow> question_type list" where
  "getQuestionTypes Easy = [Addition, Subtraction, Multiplication]"
| "getQuestionTypes Medium =
     [Addition, Subtraction, Multiplication, Division, Fractions, Decimals, WordProblem]"
| "getQuestionTypes Hard =
     [Addition, Subtraction, Multiplication, Division, Mixed, Fractions, Decimals,
      Percentages, WordProblem, Algebra, Geometry]"

definition createAdditionQuestion ::
  "random \<Rightarrow> nat \<times> int \<Rightarrow> difficulty \<Rightarrow> int \<Rightarrow> question" where
  "createAdditionQuestion rnd ident d tlim =
     (let a = (case d of Easy \<Rightarrow> randomInt (rnd 0) 20 + 1
                       | Medium \<Rightarrow> randomInt (rnd 0) 50 + 10
                       | Hard \<Rightarrow> randomInt (rnd 0) 100 + 20);
          b = (case d of Easy \<Rightarrow> randomInt (rnd 1) 20 + 1
                       | Medium \<Rightarrow> randomInt (rnd 1) 50 + 10
                       | Hard \<Rightarrow> randomInt (rnd 1) 100 + 20)
      in \<lparr>qid = ident, qtext = Expr [Num a, Op Plus, Num b], answer = a + b,
          difficulty = d, qtype = Addition, timeLimit = tlim, category = ''arithmetic''\<rparr>)"

definition createSubtractionQuestion ::
  "random \<Rightarrow> nat \<times> int \<Rightarrow> difficulty \<Rightarrow> int \<Rightarrow> question" where
  "createSubtractionQuestion rnd ident d tlim =
     (let a0 = (case d of Easy \<Rightarrow> randomInt (rnd 0) 20 + 10
                        | Medium \<Rightarrow> randomInt (rnd 0) 50 + 25
                        | Hard \<Rightarrow> randomInt (rnd 0) 100 + 50);
          b0 = (case d of Easy \<Rightarrow> randomInt (rnd 1) 10 + 1
                        | Medium \<Rightarrow> randomInt (rnd 1) 25 + 5
                        | Hard \<Rightarrow> randomInt (rnd 1) 50 + 10);
          a = (if b0 > a0 then b0 else a0);
          b = (if b0 > a0 then a0 else b0)
      in \<lparr>qid = ident, qtext = Expr [Num a, Op Minus, Num b], answer = a - b,
          difficulty = d, qtype = Subtraction, timeLimit = tlim, category = ''arithmetic''\<rparr>)"

definition createMultiplicationQuestion ::
  "random \<Rightarrow> nat \<times> int \<Rightarrow> difficulty \<Rightarrow> int \<Rightarrow> question" where
  "createMultiplicationQuestion rnd ident d tlim =
     (let a = (case d of Easy \<Rightarrow> randomInt (rnd 0) 5 + 2
                       | Medium \<Rightarrow> randomInt (rnd 0) 8 + 3
                       | Hard \<Rightarrow> randomInt (rnd 0) 10 + 5);
          b = (case d of Easy \<Rightarrow> randomInt (rnd 1) 5 + 2
                       | Medium \<Rightarrow> randomInt (rnd 1) 8 + 3
                       | Hard \<Rightarrow> randomInt (rnd 1) 10 + 5)
      in \<lparr>qid = ident, qtext = Expr [Num a, Op Times, Num b], answer = a * b,
          difficulty = d, qtype = Multiplication, timeLimit = tlim,
          category = ''arithmetic''\<rparr>)"

definition createDivisionQuestion ::
  "random \<Rightarrow> nat \<times> int \<Rightarrow> difficulty \<Rightarrow> int \<Rightarrow> question" where
  "createDivisionQuestion rnd ident d tlim =
     (let divisor = (case d of Easy \<Rightarrow> randomInt (rnd 0) 5 + 2
                             | Medium \<Rightarrow> randomInt (rnd 0) 8 + 2
                             | Hard \<Rightarrow> randomInt (rnd 0) 10 + 3);
          quotient = (case d of Easy \<Rightarrow> randomInt (rnd 1) 10 + 1
                              | Medium \<Rightarrow> randomInt (rnd 1) 15 + 2
                              | Hard \<Rightarrow> randomInt (rnd 1) 20 + 5);
          dividend = divisor * quotient
      in \<lparr>qid = ident, qtext = Expr [Num dividend, Op DividedBy, Num divisor],
          answer = quotient, difficulty = d, qtype = Division, timeLimit = tlim,
          category = ''arithmetic''\<rparr>)"

definition operations :: "sym list" where
  "operations = [Plus, Minus, Times]"

text \<open>How \<open>${op}\<close> prints an operator read from \<open>operations\<close>.\<close>

fun opToken :: "sym option \<Rightarrow> token" where
  "opToken (Some s) = Op s"
| "opToken None = Undefined"

text \<open>
  \<open>createMixedQuestion\<close> draws \<open>op1\<close>, \<open>op2\<close>, \<open>a\<close>, \<open>b\<close>, \<open>c\<close> in this order (draws 0 to 4);
  the addition question it falls back to makes the draws 5 and 6.
\<close>

definition createMixedQuestion ::
  "random \<Rightarrow> nat \<times> int \<Rightarrow> difficulty \<Rightarrow> int \<Rightarrow> question" where
  "createMixedQuestion rnd ident d tlim =
     (let op1 = pick operations (randomInt (rnd 0) (int (length operations)));
          op2 = pick operations (randomInt (rnd 1) (int (length operations)));
          a = (case d of Easy \<Rightarrow> randomInt (rnd 2) 10 + 1
                       | Medium \<Rightarrow> randomInt (rnd 2) 15 + 2
                       | Hard \<Rightarrow> randomInt (rnd 2) 20 + 5);
          b = (case d of Easy \<Rightarrow> randomInt (rnd 3) 10 + 1
                       | Medium \<Rightarrow> randomInt (rnd 3) 15 + 2
                       | Hard \<Rightarrow> randomInt (rnd 3) 20 + 5);
          c = (case d of Easy \<Rightarrow> randomInt (rnd 4) 10 + 1
                       | Medium \<Rightarrow> randomInt (rnd 4) 15 + 2
                       | Hard \<Rightarrow> randomInt (rnd 4) 20 + 5);
          (result, questionText) =
            (if op1 = Some Times \<or> op2 = Some Times then
               (if op1 = Some Times then
                  (let temp = a * b
                   in (if op2 = Some Plus then temp + c else temp - c,
                       [Num a, Op Times, Num b, opToken op2, Num c]))
                else
                  (let temp = b * c
                   in (if op1 = Some Plus then a + temp else a - temp,
                       [Num a, opToken op1, Num b, Op Times, Num c])))
             else
               (let temp = (if op1 = Some Plus then a + b else a - b)
                in (if op2 = Some Plus then temp + c else temp - c,
                    [Num a, opToken op1, Num b, opToken op2, Num c])))
      in if result < 0 then createAdditionQuestion (\<lambda>i. rnd (i + 5)) ident d tlim
         else \<lparr>qid = ident, qtext = Expr questionText, answer = result,
               difficulty = d, qtype = Mixed, timeLimit = tlim, category = ''arithmetic''\<rparr>)"

text \<open>
  The generators for fractions, decimals, percentages, word problems, algebra and geometry
  compute their text and answer with floating-point rounding, \<open>Math.PI\<close> and fixed tables
  of prose. Their text and answer are an input \<open>body\<close> here; the fields \<open>difficulty\<close>,
  \<open>type\<close>, \<open>timeLimit\<close> and \<open>category\<close> are set as in the source.
\<close>

definition createOtherQuestion ::
  "question_type \<Rightarrow> string \<Rightarrow> question_text \<times> int \<Rightarrow> nat \<times> int \<Rightarrow> difficulty \<Rightarrow> int
     \<Rightarrow> question" where
  "createOtherQuestion ty cat body ident d tlim =
     \<lparr>qid = ident, qtext = fst body, answer = snd body, difficulty = d, qtype = ty,
      timeLimit = tlim, category = cat\<rparr>"

definition createFractionsQuestion ::
  "question_text \<times> int \<Rightarrow> nat \<times> int \<Rightarrow> difficulty \<Rightarrow> int \<Rightarrow> question" where
  "createFractionsQuestion = createOtherQuestion Fractions ''fractions''"

definition createDecimalsQuestion ::
  "question_text \<times> int \<Rightarrow> nat \<times> int \<Rightarrow> difficulty \<Rightarrow> int \<Rightarrow> question" where
  "createDecimalsQuestion = createOtherQuestion Decimals ''decimals''"

definition createPercentagesQuestion ::
  "question_text \<times> int \<Rightarrow> nat \<times> int \<Rightarrow> difficulty \<Rightarrow> int \<Rightarrow> question" where
  "createPercentagesQuestion = createOtherQuestion Percentages ''percentages''"

definition createWordProblemQuestion ::
  "question_text \<times> int \<Rightarrow> nat \<times> int \<Rightarrow> difficulty \<Rightarrow> int \<Rightarrow> question" where
  "createWordProblemQuestion = createOtherQuestion WordProblem ''word_problems''"

definition createAlgebraQuestion ::
  "question_text \<times> int \<Rightarrow> nat \<times> int \<Rightarrow> difficulty \<Rightarrow> int \<Rightarrow> question" where
  "createAlgebraQuestion = createOtherQuestion Algebra ''algebra''"

definition createGeometryQuestion ::
  "question_text \<times> int \<Rightarrow> nat \<times> int \<Rightarrow> difficulty \<Rightarrow> int \<Rightarrow> question" where
  "createGeometryQuestion = createOtherQuestion Geometry ''geometry''"

text \<open>
  \<open>createQuestion\<close> switches on the type string; \<open>None\<close> stands for any string that is
  none of the eleven type names (the \<open>default\<close> branch).
\<close>

fun createQuestion ::
  "random \<Rightarrow> question_text \<times> int \<Rightarrow> nat \<times> int \<Rightarrow> question_type option \<Rightarrow> difficulty
     \<Rightarrow> int \<Rightarrow> question" where
  "createQuestion rnd body ident (Some Addition) d tlim = createAdditionQuestion rnd ident d tlim"
| "createQuestion rnd body ident (Some Subtraction) d tlim =
     createSubtractionQuestion rnd ident d tlim"
| "createQuestion rnd body ident (Some Multiplication) d tlim =
     createMultiplicationQuestion rnd ident d tlim"
| "createQuestion rnd body ident (Some Division) d tlim = createDivisionQuestion rnd ident d tlim"
| "createQuestion rnd body ident (Some Mixed) d tlim = createMixedQuestion rnd ident d tlim"
| "createQuestion rnd body ident (Some Fractions) d tlim = createFractionsQuestion body ident d tlim"
| "createQuestion rnd body ident (Some Decimals) d tlim = createDecimalsQuestion body ident d tlim"
| "createQuestion rnd body ident (Some Percentages) d tlim =
     createPercentagesQuestion body ident d tlim"
| "createQuestion rnd body ident (Some WordProblem) d tlim =
     createWordProblemQuestion body ident d tlim"
| "createQuestion rnd body ident (Some Algebra) d tlim = createAlgebraQuestion body ident d tlim"
| "createQuestion rnd body ident (Some Geometry) d tlim = createGeometryQuestion body ident d tlim"
| "createQuestion rnd body ident None d tlim = createAdditionQuestion rnd ident d tlim"

text \<open>
  \<open>generateQuestion\<close> increments the counter \<open>questionCount\<close> (passed in and returned),
  reads the clock once (\<open>now\<close>) for the id, and makes draw 0 to choose the type; the chosen
  generator makes the draws that follow.
\<close>

definition generateQuestion ::
  "random \<Rightarrow> question_text \<times> int \<Rightarrow> int \<Rightarrow> difficulty \<Rightarrow> int \<Rightarrow> nat \<Rightarrow> question \<times> nat" where
  "generateQuestion rnd body now d wave questionCount =
     (let questionCount' = questionCount + 1;
          ident = (questionCount', now);
          tlim = (if d = Easy then 30000 else if d = Medium then 20000 else 15000);
          effectiveDifficulty = adjustDifficultyForWave d wave;
          questionTypes = getQuestionTypes effectiveDifficulty;
          ty = pick questionTypes (randomInt (rnd 0) (int (length questionTypes)))
      in (createQuestion (\<lambda>i. rnd (i + 1)) body ident ty effectiveDifficulty tlim,
          questionCount'))"

text \<open>
  The value of a displayed expression under standard precedence: products are folded
  first, then sums and differences left to right. \<open>None\<close> when the tokens are not an
  expression over \<open>+\<close>, \<open>-\<close> and \<open>\<times>\<close>.
\<close>

fun foldProducts :: "token list \<Rightarrow> token list" where
  "foldProducts (Num x # Op Times # Num y # ts) = foldProducts (Num (x * y) # ts)"
| "foldProducts (t # ts) = t # foldProducts ts"
| "foldProducts [] = []"

fun foldSums :: "int \<Rightarrow> token list \<Rightarrow> int option" where
  "foldSums acc [] = Some acc"
| "foldSums acc (Op Plus # Num y # ts) = foldSums (acc + y) ts"
| "foldSums acc (Op Minus # Num y # ts) = foldSums (acc - y) ts"
| "foldSums acc ts = None"

definition standardValue :: "token list \<Rightarrow> int option" where
  "standardValue ts =
     (case foldProducts ts of Num x # rest \<Rightarrow> foldSums x rest | _ \<Rightarrow> None)"

section \<open>Game state store\<close>

text \<open>
  The store \<open>useGameState\<close>, with the fields that \<open>answerQuestion\<close> reads or writes. The
  store's \<open>set\<close> merges the partial object it is given into the state, so every field not
  named here keeps its value. The store's current question is the generator's question.
\<close>

record game_state =
  currentQuestion :: "question option"
  combo :: int
  maxCombo :: int
  score :: int
  questionsAnswered :: int
  correctAnswers :: int
  wrongAnswers :: int

text \<open>The local constant \<open>basePoints\<close> of \<open>answerQuestion\<close>, as a function of the difficulty.\<close>

definition basePoints :: "difficulty \<Rightarrow> int" where
  "basePoints d = (if d = Easy then 10 else if d = Medium then 20 else 30)"

text \<open>
  \<open>answerQuestion\<close> returns the correctness and the new state. \<open>Math.floor(newCombo / 5)\<close>
  is \<open>newCombo div 5\<close>: integer division in HOL rounds down, as \<open>Math.floor\<close> does.
\<close>

definition answerQuestion :: "int \<Rightarrow> game_state \<Rightarrow> bool \<times> game_state" where
  "answerQuestion ans s =
     (case currentQuestion s of
        None \<Rightarrow> (False, s)
      | Some q \<Rightarrow>
          (let isCorrect = (ans = answer q);
               newCombo = (if isCorrect then combo s + 1 else 0);
               comboMultiplier = newCombo div 5 + 1;
               points = (if isCorrect then basePoints (difficulty q) * comboMultiplier else 0)
           in (isCorrect,
               s\<lparr>questionsAnswered := questionsAnswered s + 1,
                 correctAnswers := (if isCorrect then correctAnswers s + 1 else correctAnswers s),
                 wrongAnswers := (if isCorrect then wrongAnswers s else wrongAnswers s + 1),
                 combo := newCombo,
                 maxCombo := max (maxCombo s) newCombo,
                 score := score s + points\<rparr>)))"

text \<open>
  The utility \<open>getComboMultiplier\<close> of \<open>gameUtils.ts\<close>. Neither \<open>answerQuestion\<close> nor any
  other function of the repository calls it.
\<close>

definition getComboMultiplier :: "int \<Rightarrow> real" where
  "getComboMultiplier c = 1 + of_int (c div 5) * (1 / 2)"

section \<open>Monsters\<close>

text \<open>
  Coordinates, speeds and sizes are JavaScript numbers, modelled as real numbers: rounding
  of floating-point arithmetic is not part of the model. Every read of the clock
  (\<open>Date.now()\<close>, in milliseconds) is an input \<open>now\<close>; the reads made during one call of a
  modelled function all return the same value.
\<close>

datatype monster_type = Basic | Fast | Tank | Boss

type_synonym point = "real \<times> real"

text \<open>A monster id is \<open>`monster_${Date.now()}_${Math.random()}`\<close>: the two values printed.\<close>

type_synonym monster_id = "int \<times> real"

text \<open>
  The interface \<open>Monster\<close> of the store. The fields \<open>id\<close>, \<open>x\<close>, \<open>y\<close>, \<open>type\<close>, \<open>size\<close> and
  \<open>answer\<close> are \<open>mid\<close>, \<open>mx\<close>, \<open>my\<close>, \<open>mtype\<close>, \<open>msize\<close> and \<open>manswer\<close>. An optional field
  that is \<open>undefined\<close> is \<open>None\<close>; \<open>isDestroying\<close> is only ever tested for truth, so
  \<open>undefined\<close> is \<open>False\<close>.
\<close>

record monster_data =
  mid :: monster_id
  mx :: real
  my :: real
  health :: int
  maxHealth :: int
  speed :: real
  targetX :: real
  targetY :: real
  mtype :: monster_type
  color :: string
  msize :: real
  equation :: "question_text option"
  manswer :: "int option"
  isDestroying :: bool
  destructionStartTime :: "int option"
  spawnX :: "real option"
  spawnY :: "real option"

definition CANVAS_WIDTH :: real where "CANVAS_WIDTH = 800"
definition CANVAS_HEIGHT :: real where "CANVAS_HEIGHT = 600"
definition PLAYER_RADIUS :: real where "PLAYER_RADIUS = 30"

text \<open>\<open>generateMonsterSpawnPoint\<close> makes two draws: the side, then the coordinate.\<close>

definition generateMonsterSpawnPoint :: "random \<Rightarrow> point" where
  "generateMonsterSpawnPoint rnd =
     (let side = randomInt (rnd 0) 4; margin = 250
      in if side = 0 then (rnd 1 * CANVAS_WIDTH, - margin)
         else if side = 1 then (CANVAS_WIDTH + margin, rnd 1 * CANVAS_HEIGHT)
         else if side = 2 then (rnd 1 * CANVAS_WIDTH, CANVAS_HEIGHT + margin)
         else if side = 3 then (- margin, rnd 1 * CANVAS_HEIGHT)
         else (- margin, rnd 1 * CANVAS_HEIGHT))"

text \<open>The array \<open>types\<close> of \<open>createMonster\<close>, built by the three conditional pushes.\<close>

definition eligibleTypes :: "int \<Rightarrow> monster_type list" where
  "eligibleTypes wave =
     [Basic] @ (if wave \<ge> 3 then [Fast] else []) @ (if wave \<ge> 5 then [Tank] else [])
       @ (if wave mod 10 = 0 then [Boss] else [])"

text \<open>
  \<open>createMonster\<close> makes the draws 0 and 1 for the spawn point, draw 2 for the type and
  draw 3 for the id. A type read outside the array would be \<open>undefined\<close>, which takes the
  \<open>default\<close> (basic) branch of every \<open>switch\<close> on the type; it is identified with \<open>Basic\<close>.
  The result is (health, speed, size, color) of the \<open>switch\<close>, then the scaled health.
\<close>

definition createMonster :: "int \<Rightarrow> random \<Rightarrow> int \<Rightarrow> difficulty \<Rightarrow> monster_data" where
  "createMonster now rnd wave d =
     (let spawnPoint = generateMonsterSpawnPoint rnd;
          playerCenter = (CANVAS_WIDTH / 2, CANVAS_HEIGHT / 2);
          types = eligibleTypes wave;
          ty = (case pick types (randomInt (rnd 2) (int (length types))) of
                  Some t \<Rightarrow> t | None \<Rightarrow> Basic);
          spawnDistance = sqrt ((fst spawnPoint - fst playerCenter)\<^sup>2
                                + (snd spawnPoint - snd playerCenter)\<^sup>2);
          exactSpeed = spawnDistance / 5000;
          (health0, speed0, size0, color0) =
            (case ty of
               Fast \<Rightarrow> (1, exactSpeed, 20, ''#10b981'')
             | Tank \<Rightarrow> (5, exactSpeed * (9 / 10), 40, ''#dc2626'')
             | Boss \<Rightarrow> (15, exactSpeed * (8 / 10), 60, ''#7c3aed'')
             | Basic \<Rightarrow> (2, exactSpeed, 25, ''#f97316''));
          healthMultiplier = (if d = Easy then 8 / 10 else if d = Medium then 1 else 12 / 10);
          health1 = \<lceil>real_of_int health0 * healthMultiplier\<rceil>
      in \<lparr>mid = (now, rnd 3), mx = fst spawnPoint, my = snd spawnPoint, health = health1,
          maxHealth = health1, speed = speed0, targetX = fst playerCenter,
          targetY = snd playerCenter, mtype = ty, color = color0, msize = size0,
          equation = None, manswer = None, isDestroying = False,
          destructionStartTime = None, spawnX = None, spawnY = None\<rparr>)"

fun getMonsterDamage :: "monster_type \<Rightarrow> int" where
  "getMonsterDamage Fast = 1"
| "getMonsterDamage Tank = 2"
| "getMonsterDamage Boss = 3"
| "getMonsterDamage Basic = 1"

text \<open>
  The class \<open>Monster\<close>: the data and the private \<open>spawnTime\<close>. The private field
  \<open>lastUpdateTime\<close> is never read and is left out.
\<close>

record monster =
  data :: monster_data
  spawnTime :: int

definition Monster_new :: "int \<Rightarrow> monster_data \<Rightarrow> monster" where
  "Monster_new now monsterData = \<lparr>data = monsterData, spawnTime = now\<rparr>"

text \<open>
  \<open>Monster.update\<close>. The test \<open>!this.data.spawnX || !this.data.spawnY\<close> holds when either
  field is \<open>undefined\<close> or zero; the spawn point is then reset to the current position.
\<close>

definition Monster_update :: "int \<Rightarrow> real \<Rightarrow> point \<Rightarrow> monster \<Rightarrow> monster" where
  "Monster_update now deltaTime playerPosition m =
     (let d1 = (data m)\<lparr>targetX := fst playerPosition, targetY := snd playerPosition\<rparr>;
          elapsedTime = now - spawnTime m;
          totalTravelTime = 5000;
          progress = min (real_of_int elapsedTime / totalTravelTime) 1;
          (sx, sy) = (case (spawnX d1, spawnY d1) of
                        (Some a, Some b) \<Rightarrow> if a = 0 \<or> b = 0 then (mx d1, my d1) else (a, b)
                      | _ \<Rightarrow> (mx d1, my d1))
      in m\<lparr>data := d1\<lparr>spawnX := Some sx, spawnY := Some sy,
                       mx := sx + (targetX d1 - sx) * progress,
                       my := sy + (targetY d1 - sy) * progress\<rparr>\<rparr>)"

text \<open>\<open>Monster.takeDamage\<close>: whether the monster died, and the monster.\<close>

definition Monster_takeDamage :: "int \<Rightarrow> monster \<Rightarrow> bool \<times> monster" where
  "Monster_takeDamage amount m =
     (let h = max 0 (health (data m) - amount)
      in (h \<le> 0, m\<lparr>data := (data m)\<lparr>health := h\<rparr>\<rparr>))"

definition isAttacking :: "monster \<Rightarrow> point \<Rightarrow> real \<Rightarrow> bool" where
  "isAttacking m playerPosition playerRadius =
     (let distance = sqrt ((mx (data m) - fst playerPosition)\<^sup>2
                           + (my (data m) - snd playerPosition)\<^sup>2)
      in distance \<le> msize (data m) + playerRadius)"

section \<open>Game engine\<close>

text \<open>
  What the engine does to its callers is a log of events, oldest first: the calls of the
  callbacks \<open>onMonsterReachPlayer\<close>, \<open>onMonsterDestroyed\<close> and \<open>onStateUpdate\<close>.
  \<open>PositionUpdated\<close> is not a callback: it records that \<open>monster.update\<close> has returned for
  the monster with that id, so that the order of position updates and callbacks can be
  read off the log. The id in \<open>MonsterReachPlayer\<close> names the monster whose collision
  made the call; the callback itself receives only the damage.
\<close>

datatype event =
    PositionUpdated monster_id
  | MonsterReachPlayer monster_id int
  | MonsterDestroyed monster_id
  | StateUpdate

text \<open>
  \<open>GameEngineState\<close> and the engine's own fields: \<open>animationId\<close> is the handle of the
  requested animation frame, \<open>timers\<close> are the pending \<open>setTimeout\<close> callbacks of
  \<open>destroyMonster\<close> (due time and monster id), \<open>events\<close> is the log.
\<close>

record engine =
  playerPosition :: point
  monsters :: "monster list"
  lastSpawnTime :: int
  lastUpdateTime :: int
  isRunning :: bool
  animationId :: "nat option"
  timers :: "(int \<times> monster_id) list"
  events :: "event list"

definition GameEngine_new :: "int \<Rightarrow> engine" where
  "GameEngine_new now =
     \<lparr>playerPosition = (CANVAS_WIDTH / 2, CANVAS_HEIGHT / 2), monsters = [],
      lastSpawnTime = 0, lastUpdateTime = now, isRunning = False, animationId = None,
      timers = [], events = []\<rparr>"

text \<open>\<open>Array.prototype.findIndex\<close>; \<open>None\<close> is the result \<open>-1\<close>.\<close>

fun findIndex :: "('a \<Rightarrow> bool) \<Rightarrow> 'a list \<Rightarrow> nat option" where
  "findIndex P [] = None"
| "findIndex P (x # xs) = (if P x then Some 0 else map_option Suc (findIndex P xs))"

text \<open>\<open>xs.splice(i, 1)\<close>.\<close>

definition splice1 :: "nat \<Rightarrow> 'a list \<Rightarrow> 'a list" where
  "splice1 i xs = take i xs @ drop (Suc i) xs"

definition hasId :: "monster_id \<Rightarrow> monster \<Rightarrow> bool" where
  "hasId monsterId m = (mid (data m) = monsterId)"

definition destroyMonster :: "int \<Rightarrow> monster_id \<Rightarrow> bool \<Rightarrow> engine \<Rightarrow> engine" where
  "destroyMonster now monsterId withAnimation s =
     (case findIndex (hasId monsterId) (monsters s) of
        None \<Rightarrow> s
      | Some monsterIndex \<Rightarrow>
          (let m = monsters s ! monsterIndex
           in if withAnimation \<and> \<not> isDestroying (data m) then
                s\<lparr>monsters := (monsters s)
                     [monsterIndex :=
                        m\<lparr>data := (data m)\<lparr>isDestroying := True,
                                            destructionStartTime := Some now\<rparr>\<rparr>],
                  timers := timers s @ [(now + 800, monsterId)]\<rparr>
              else
                s\<lparr>monsters := splice1 monsterIndex (monsters s),
                  events := events s @ [MonsterDestroyed monsterId]\<rparr>))"

text \<open>The callback that \<open>destroyMonster\<close> hands to \<open>setTimeout\<close>.\<close>

definition destroyTimeout :: "monster_id \<Rightarrow> engine \<Rightarrow> engine" where
  "destroyTimeout monsterId s =
     (let s1 = (case findIndex (hasId monsterId) (monsters s) of
                  None \<Rightarrow> s
                | Some currentIndex \<Rightarrow> s\<lparr>monsters := splice1 currentIndex (monsters s)\<rparr>)
      in s1\<lparr>events := events s1 @ [MonsterDestroyed monsterId]\<rparr>)"

text \<open>The host runs the oldest pending timer.\<close>

definition fireTimer :: "engine \<Rightarrow> engine" where
  "fireTimer s =
     (case timers s of
        [] \<Rightarrow> s
      | (due, monsterId) # rest \<Rightarrow> destroyTimeout monsterId (s\<lparr>timers := rest\<rparr>))"

definition damageMonster :: "int \<Rightarrow> monster_id \<Rightarrow> int \<Rightarrow> engine \<Rightarrow> bool \<times> engine" where
  "damageMonster now monsterId damage s =
     (case findIndex (hasId monsterId) (monsters s) of
        None \<Rightarrow> (False, s)
      | Some i \<Rightarrow>
          (let (isDestroyed, m) = Monster_takeDamage damage (monsters s ! i);
               s1 = s\<lparr>monsters := (monsters s)[i := m]\<rparr>
           in (isDestroyed, if isDestroyed then destroyMonster now monsterId True s1 else s1)))"

text \<open>
  The body of the \<open>forEach\<close> callback of \<open>update\<close>, for the monster at index \<open>k\<close>:
  \<open>monster.update\<close> changes the monster in place, then the collision is tested.
\<close>

definition visit :: "int \<Rightarrow> real \<Rightarrow> nat \<Rightarrow> engine \<Rightarrow> engine" where
  "visit now deltaTime k s =
     (let m = monsters s ! k
      in if \<not> isDestroying (data m) then
           (let m' = Monster_update now deltaTime (playerPosition s) m;
                s1 = s\<lparr>monsters := (monsters s)[k := m'],
                       events := events s @ [PositionUpdated (mid (data m'))]\<rparr>
            in if isAttacking m' (playerPosition s1) PLAYER_RADIUS then
                 (let damage = getMonsterDamage (mtype (data m'));
                      s2 = s1\<lparr>events := events s1
                                 @ [MonsterReachPlayer (mid (data m')) damage]\<rparr>
                  in destroyMonster now (mid (data m')) False s2)
               else s1)
         else s)"

text \<open>
  \<open>this.state.monsters.forEach(...)\<close>: \<open>forEach\<close> reads the length once, before the first
  call, and then visits the indices \<open>0, 1, ..., length - 1\<close> in turn, skipping an index
  that is no longer in the array. \<open>forEachFrom n k\<close> is the loop with \<open>n\<close> indices left
  to visit, the next one being \<open>k\<close>.
\<close>

fun forEachFrom :: "int \<Rightarrow> real \<Rightarrow> nat \<Rightarrow> nat \<Rightarrow> engine \<Rightarrow> engine" where
  "forEachFrom now deltaTime 0 k s = s"
| "forEachFrom now deltaTime (Suc n) k s =
     forEachFrom now deltaTime n (Suc k)
       (if k < length (monsters s) then visit now deltaTime k s else s)"

definition update :: "int \<Rightarrow> real \<Rightarrow> engine \<Rightarrow> engine" where
  "update now deltaTime s = forEachFrom now deltaTime (length (monsters s)) 0 s"

text \<open>
  \<open>gameLoop\<close>: \<open>render\<close> changes nothing in the state; \<open>frame\<close> is the handle that
  \<open>requestAnimationFrame\<close> returns.
\<close>

definition gameLoop :: "int \<Rightarrow> nat \<Rightarrow> engine \<Rightarrow> engine" where
  "gameLoop now frame s =
     (if \<not> isRunning s then s
      else
        (let deltaTime = min (real_of_int (now - lastUpdateTime s)) (1667 / 100);
             s1 = s\<lparr>lastUpdateTime := now\<rparr>;
             s2 = update now deltaTime s1
         in s2\<lparr>animationId := Some frame\<rparr>))"

definition start :: "int \<Rightarrow> nat \<Rightarrow> engine \<Rightarrow> engine" where
  "start now frame s = gameLoop now frame (s\<lparr>isRunning := True, lastUpdateTime := now\<rparr>)"

text \<open>\<open>if (this.animationId)\<close> holds for a handle other than zero.\<close>

definition cancelFrame :: "engine \<Rightarrow> engine" where
  "cancelFrame s =
     (case animationId s of
        Some h \<Rightarrow> if h \<noteq> 0 then s\<lparr>animationId := None\<rparr> else s
      | None \<Rightarrow> s)"

definition pause :: "engine \<Rightarrow> engine" where
  "pause s = cancelFrame (s\<lparr>isRunning := False\<rparr>)"

definition stop :: "engine \<Rightarrow> engine" where
  "stop s = cancelFrame (s\<lparr>isRunning := False, monsters := []\<rparr>)"

text \<open>
  \<open>spawnMonster\<close>: the monster is tagged when \<open>equation\<close> is a non-empty string and
  \<open>answer\<close> is defined; \<open>None\<close> for the equation stands for \<open>undefined\<close> or the empty string.
\<close>

definition spawnMonster ::
  "int \<Rightarrow> random \<Rightarrow> int \<Rightarrow> difficulty \<Rightarrow> question_text option \<Rightarrow> int option \<Rightarrow> engine
     \<Rightarrow> engine" where
  "spawnMonster now rnd wave d eq ans s =
     (let monsterData0 = createMonster now rnd wave d;
          monsterData = (case (eq, ans) of
                           (Some e, Some a) \<Rightarrow> monsterData0\<lparr>equation := Some e, manswer := Some a\<rparr>
                         | _ \<Rightarrow> monsterData0);
          m = Monster_new now monsterData
      in s\<lparr>monsters := monsters s @ [m], events := events s @ [StateUpdate]\<rparr>)"

definition spawnNextMonster ::
  "int \<Rightarrow> random \<Rightarrow> int \<Rightarrow> difficulty \<Rightarrow> question_text option \<Rightarrow> int option \<Rightarrow> engine
     \<Rightarrow> engine" where
  "spawnNextMonster now rnd wave d eq ans s =
     (if length (monsters s) < 3 then
        (let currentTime = now; timeSinceLastSpawn = currentTime - lastSpawnTime s
         in if timeSinceLastSpawn \<ge> 2000 then
              (spawnMonster now rnd wave d eq ans s)\<lparr>lastSpawnTime := currentTime\<rparr>
            else s)
      else s)"

definition spawnWave :: "int \<Rightarrow> random \<Rightarrow> int \<Rightarrow> difficulty \<Rightarrow> engine \<Rightarrow> engine" where
  "spawnWave now rnd wave d s =
     (if length (monsters s) = 0 then spawnMonster now rnd wave d None None s else s)"

text \<open>
  The calls an engine can receive, from its callers and from the host (a requested frame,
  a due timer), apart from a direct call of \<open>spawnMonster\<close>.
\<close>

datatype call =
    Start int nat
  | Pause
  | Stop
  | Frame int nat
  | Timer
  | SpawnNext int random int difficulty "question_text option" "int option"
  | SpawnWave int random int difficulty
  | Destroy int monster_id bool
  | Damage int monster_id int

fun step :: "call \<Rightarrow> engine \<Rightarrow> engine" where
  "step (Start now frame) s = start now frame s"
| "step Pause s = pause s"
| "step Stop s = stop s"
| "step (Frame now frame) s = gameLoop now frame s"
| "step Timer s = fireTimer s"
| "step (SpawnNext now rnd wave d eq ans) s = spawnNextMonster now rnd wave d eq ans s"
| "step (SpawnWave now rnd wave d) s = spawnWave now rnd wave d s"
| "step (Destroy now monsterId withAnimation) s = destroyMonster now monsterId withAnimation s"
| "step (Damage now monsterId damage) s = snd (damageMonster now monsterId damage s)"

fun run :: "call list \<Rightarrow> engine \<Rightarrow> engine" where
  "run [] s = s"
| "run (c # cs) s = run cs (step c s)"

text \<open>
  The clock readings of the calls of \<open>spawnNextMonster\<close> that added a monster, in order.
\<close>

fun spawnTimes :: "call list \<Rightarrow> engine \<Rightarrow> int list" where
  "spawnTimes [] s = []"
| "spawnTimes (SpawnNext now rnd wave d eq ans # cs) s =
     (if length (monsters (spawnNextMonster now rnd wave d eq ans s)) > length (monsters s)
      then [now] else [])
     @ spawnTimes cs (spawnNextMonster now rnd wave d eq ans s)"
| "spawnTimes (c # cs) s = spawnTimes cs (step c s)"

text \<open>Consecutive times are at least 2000 ms apart.\<close>

fun spaced :: "int list \<Rightarrow> bool" where
  "spaced (t1 # t2 # ts) = (t2 - t1 \<ge> 2000 \<and> spaced (t2 # ts))"
| "spaced ts = True"

text \<open>The positions of the monsters in the list, in list order.\<close>

definition monsterPositions :: "engine \<Rightarrow> point list" where
  "monsterPositions s = map (\<lambda>m. (mx (data m), my (data m))) (monsters s)"

text \<open>The ids of the monsters in the list, in list order.\<close>

definition monsterIds :: "engine \<Rightarrow> monster_id list" where
  "monsterIds s = map (\<lambda>m. mid (data m)) (monsters s)"

text \<open>The monsters whose collision fired the reached-player callback, in firing order.\<close>

fun reachedIds :: "event list \<Rightarrow> monster_id list" where
  "reachedIds [] = []"
| "reachedIds (MonsterReachPlayer i d # es) = i # reachedIds es"
| "reachedIds (e # es) = reachedIds es"

text \<open>
  The events of one visit of the \<open>forEach\<close> callback that updates a monster: the position
  update alone, or the position update followed at once by the reached-player and the
  destroyed callback of the same monster.
\<close>

definition visitBlock :: "event list \<Rightarrow> bool" where
  "visitBlock b =
     (\<exists>i. b = [PositionUpdated i]
          \<or> (\<exists>d. b = [PositionUpdated i, MonsterReachPlayer i d, MonsterDestroyed i]))"

text \<open>
  The events of one tick as a function of the monster list at its start: the list is
  walked in order, a monster that is being destroyed adds nothing, any other monster is
  updated and then tested, and a collision adds the two callbacks at once. After a
  collision the walk goes on at the index that \<open>forEach\<close> visits next in the spliced
  array, which is two places further in the list at the start.
\<close>

fun tickLog :: "int \<Rightarrow> real \<Rightarrow> point \<Rightarrow> monster list \<Rightarrow> event list" where
  "tickLog now deltaTime p [] = []"
| "tickLog now deltaTime p (m # ms) =
     (if isDestroying (data m) then tickLog now deltaTime p ms
      else
        (let m' = Monster_update now deltaTime p m
         in if isAttacking m' p PLAYER_RADIUS then
              [PositionUpdated (mid (data m')),
               MonsterReachPlayer (mid (data m')) (getMonsterDamage (mtype (data m'))),
               MonsterDestroyed (mid (data m'))]
              @ tickLog now deltaTime p (drop 1 ms)
            else PositionUpdated (mid (data m')) # tickLog now deltaTime p ms))"

text \<open>
  The order that claim C7 states: once a reached-player callback has fired, no position
  update follows in the events of that tick.
\<close>

fun noPositionUpdate :: "event list \<Rightarrow> bool" where
  "noPositionUpdate [] = True"
| "noPositionUpdate (PositionUpdated i # es) = False"
| "noPositionUpdate (e # es) = noPositionUpdate es"

fun updatesBeforeCallbacks :: "event list \<Rightarrow> bool" where
  "updatesBeforeCallbacks [] = True"
| "updatesBeforeCallbacks (MonsterReachPlayer i d # es) = noPositionUpdate es"
| "updatesBeforeCallbacks (e # es) = updatesBeforeCallbacks es"

section \<open>Example inputs\<close>

text \<open>A random source whose every draw is \<open>r\<close>.\<close>

definition constantRandom :: "real \<Rightarrow> random" where
  "constantRandom r = (\<lambda>i. r)"

text \<open>
  Draws for \<open>createMixedQuestion\<close>: index 2 of \<open>operations\<close> twice (both operators are
  \<open>\<times>\<close>), then the least operand three times.
\<close>

definition doubleProductRandom :: random where
  "doubleProductRandom = (\<lambda>i. if i < 2 then 2 / 3 else 0)"

text \<open>An easy addition question, and a store state holding it with a given combo.\<close>

definition demoQuestion :: question where
  "demoQuestion = \<lparr>qid = (1, 0), qtext = Expr [Num 2, Op Plus, Num 3], answer = 5,
      difficulty = Easy, qtype = Addition, timeLimit = 30000, category = ''arithmetic''\<rparr>"

definition demoState :: "int \<Rightarrow> game_state" where
  "demoState c = \<lparr>currentQuestion = Some demoQuestion, combo = c, maxCombo = c, score = 100,
      questionsAnswered = c, correctAnswers = c, wrongAnswers = 0\<rparr>"

text \<open>
  Draws for \<open>createMonster\<close>: side 3 (the left edge), the coordinate \<open>y = 300\<close>, and
  \<open>2/3\<close> for the type: index 2 of the eligible types at wave 5 (the tank), index 0
  at wave 1 (the basic monster).
\<close>

definition demoRandom :: random where
  "demoRandom = (\<lambda>i. if i = 0 then 3 / 4 else if i = 1 then 1 / 2 else 2 / 3)"

text \<open>A started engine holding one basic monster, spawned at time 0.\<close>

definition demoSpawned :: engine where
  "demoSpawned = spawnMonster 0 demoRandom 1 Easy None None (start 0 1 (GameEngine_new 0))"

text \<open>The same engine after an animated \<open>destroyMonster\<close> of that monster at time 100.\<close>

definition demoDestroying :: engine where
  "demoDestroying = destroyMonster 100 (0, 2 / 3) True demoSpawned"

text \<open>Five calls of \<open>spawnNextMonster\<close>, one to two seconds apart.\<close>

definition demoCalls :: "call list" where
  "demoCalls =
     [SpawnNext 2000 demoRandom 1 Easy None None,
      SpawnNext 3000 demoRandom 1 Easy None None,
      SpawnNext 4000 demoRandom 1 Easy None None,
      SpawnNext 6000 demoRandom 1 Easy None None,
      SpawnNext 8000 demoRandom 1 Easy None None]"

text \<open>The engine \<open>demoSpawned\<close> after the tick at time 1000.\<close>

definition demoTicked :: engine where
  "demoTicked = gameLoop 1000 2 demoSpawned"

text \<open>A started engine with three basic monsters, spawned at times 0, 2000 and 4000.\<close>

definition demoThree :: engine where
  "demoThree =
     spawnMonster 4000 demoRandom 1 Easy None None
       (spawnMonster 2000 demoRandom 1 Easy None None demoSpawned)"

section \<open>Properties of the question generator\<close>

lemma randomInt_range:
  assumes "0 \<le> r" "r < 1" "0 < n"
  shows "0 \<le> randomInt r n \<and> randomInt r n < n"
proof -
  have "0 \<le> r * of_int n" using assms by simp
  moreover have "r * of_int n < of_int n" using assms by simp
  ultimately show ?thesis
    unfolding randomInt_def by (simp add: floor_less_iff)
qed

lemma pick_in_set: "pick xs k = Some x \<Longrightarrow> x \<in> set xs"
  by (auto simp: pick_def split: if_splits)

lemma qtype_simple:
  "qtype (createAdditionQuestion r i e t) = Addition"
  "qtype (createSubtractionQuestion r i e t) = Subtraction"
  "qtype (createMultiplicationQuestion r i e t) = Multiplication"
  "qtype (createDivisionQuestion r i e t) = Division"
  by (simp_all add: createAdditionQuestion_def createSubtractionQuestion_def
          createMultiplicationQuestion_def createDivisionQuestion_def Let_def)

lemma generateQuestion_difficulty:
  "difficulty (fst (generateQuestion rnd body now d w n)) = adjustDifficultyForWave d w"
proof -
  have mixed: "\<And>r i e t. difficulty (createMixedQuestion r i e t) = e"
    by (simp add: createMixedQuestion_def createAdditionQuestion_def Let_def split: prod.splits)
  have cq: "\<And>r ty e i t. difficulty (createQuestion r body i ty e t) = e"
  proof -
    fix r ty e i t
    show "difficulty (createQuestion r body i ty e t) = e"
    proof (cases ty)
      case None
      then show ?thesis by (simp add: createAdditionQuestion_def Let_def)
    next
      case (Some a)
      then show ?thesis
        by (cases a) (simp_all add: mixed createAdditionQuestion_def createSubtractionQuestion_def
          createMultiplicationQuestion_def createDivisionQuestion_def createFractionsQuestion_def
          createDecimalsQuestion_def createPercentagesQuestion_def createWordProblemQuestion_def
          createAlgebraQuestion_def createGeometryQuestion_def createOtherQuestion_def Let_def)
    qed
  qed
  show ?thesis by (simp add: generateQuestion_def Let_def cq)
qed

text \<open>
  Claim C1. The wave adjustment is a step function of the wave number \<open>w\<close>: up to wave 3
  the result is easy; on waves 4 to 6 it is easy for an easy base difficulty and medium
  otherwise; on waves 7 to 10 it is medium for an easy base difficulty and hard otherwise;
  from wave 11 on it is hard. The question that \<open>generateQuestion\<close> returns carries
  exactly this difficulty.
\<close>

theorem adjustDifficultyForWave_step_function:
  "(w \<le> 3 \<longrightarrow> adjustDifficultyForWave d w = Easy)
   \<and> (4 \<le> w \<and> w \<le> 6 \<longrightarrow>
        adjustDifficultyForWave d w = (if d = Easy then Easy else Medium))
   \<and> (7 \<le> w \<and> w \<le> 10 \<longrightarrow>
        adjustDifficultyForWave d w = (if d = Easy then Medium else Hard))
   \<and> (11 \<le> w \<longrightarrow> adjustDifficultyForWave d w = Hard)
   \<and> difficulty (fst (generateQuestion rnd body now d w n)) = adjustDifficultyForWave d w"
  by (simp add: generateQuestion_difficulty) (simp add: adjustDifficultyForWave_def)

theorem adjustDifficultyForWave_step_function_witness:
  "(2::int) \<le> 3 \<and> adjustDifficultyForWave Hard 2 = Easy
   \<and> (4::int) \<le> 5 \<and> (5::int) \<le> 6 \<and> adjustDifficultyForWave Hard 5 = Medium
   \<and> (7::int) \<le> 8 \<and> (8::int) \<le> 10 \<and> adjustDifficultyForWave Easy 8 = Medium
   \<and> (11::int) \<le> 12 \<and> adjustDifficultyForWave Medium 12 = Hard"
  using adjustDifficultyForWave_step_function [of 2 Hard "\<lambda>i. 0" "(Prose [], 0)" 0 0]
    adjustDifficultyForWave_step_function [of 5 Hard "\<lambda>i. 0" "(Prose [], 0)" 0 0]
    adjustDifficultyForWave_step_function [of 8 Easy "\<lambda>i. 0" "(Prose [], 0)" 0 0]
    adjustDifficultyForWave_step_function [of 12 Medium "\<lambda>i. 0" "(Prose [], 0)" 0 0]
  by simp

text \<open>
  Claim C2. A question generated at resolved difficulty easy should be an addition or a
  subtraction: the lobby describes the easy setting as simple addition and subtraction
  and the medium one as the setting that includes multiplication, and the server's
  generator has the easy menu \<open>[addition, subtraction]\<close>. The easy menu of
  \<open>getQuestionTypes\<close> lists multiplication as a third type: the call
  \<open>generateQuestion("easy", 1)\<close> whose first draw is \<open>2/3\<close> returns a multiplication
  question.
\<close>

theorem easy_menu_yields_multiplication:
  "valid_random (constantRandom (2 / 3)) \<and> adjustDifficultyForWave Easy 1 = Easy \<and>
   qtype (fst (generateQuestion (constantRandom (2 / 3)) (Prose [], 0) 0 Easy 1 0))
     = Multiplication \<and>
   qtype (fst (generateQuestion (constantRandom (2 / 3)) (Prose [], 0) 0 Easy 1 0))
     \<notin> {Addition, Subtraction}"
  by (simp add: valid_random_def constantRandom_def adjustDifficultyForWave_def
       generateQuestion_def Let_def randomInt_def pick_def qtype_simple)

text \<open>
  Claim C3. The stored answer of a mixed question should be the value of the displayed
  expression under standard precedence. When both operators drawn are \<open>\<times>\<close> the code takes
  the branch for \<open>op1 = \<times>\<close> and computes \<open>a \<times> b - c\<close>, because \<open>op2\<close> is not \<open>+\<close>: with
  \<open>a = b = c = 5\<close> the question shown is \<open>5 \<times> 5 \<times> 5\<close>, whose value is 125, and the stored
  answer is 20.
\<close>

theorem createMixedQuestion_double_product:
  "valid_random doubleProductRandom
   \<and> qtype (createMixedQuestion doubleProductRandom (1, 0) Hard 15000) = Mixed
   \<and> qtext (createMixedQuestion doubleProductRandom (1, 0) Hard 15000) =
       Expr [Num 5, Op Times, Num 5, Op Times, Num 5]
   \<and> answer (createMixedQuestion doubleProductRandom (1, 0) Hard 15000) = 20
   \<and> standardValue [Num 5, Op Times, Num 5, Op Times, Num 5] = Some 125"
  by (simp add: valid_random_def doubleProductRandom_def createMixedQuestion_def operations_def
     pick_def randomInt_def Let_def standardValue_def)

lemma pick_operations:
  assumes "0 \<le> r" "r < 1"
  shows "\<exists>s. pick operations (randomInt r (int (length operations))) = Some s"
proof -
  have "0 \<le> randomInt r 3 \<and> randomInt r 3 < 3" using assms by (intro randomInt_range) simp_all
  moreover from this have "nat (randomInt r 3) < 3" by linarith
  ultimately show ?thesis by (simp add: pick_def operations_def)
qed

lemma createAdditionQuestion_positive:
  assumes "valid_random rnd"
  shows "0 < answer (createAdditionQuestion rnd ident d tlim)"
proof -
  have r: "0 \<le> rnd 0" "rnd 0 < 1" "0 \<le> rnd 1" "rnd 1 < 1"
    using assms by (simp_all add: valid_random_def)
  have "0 \<le> randomInt (rnd 0) 20" "0 \<le> randomInt (rnd 0) 50" "0 \<le> randomInt (rnd 0) 100"
    "0 \<le> randomInt (rnd 1) 20" "0 \<le> randomInt (rnd 1) 50" "0 \<le> randomInt (rnd 1) 100"
    using r randomInt_range by simp_all
  then show ?thesis by (cases d) (simp_all add: createAdditionQuestion_def Let_def)
qed

text \<open>
  What does hold of mixed questions: the stored answer is never negative, and it is the
  value of the displayed expression under standard precedence whenever the two operators
  are not both \<open>\<times>\<close>.
\<close>

lemma createMixedQuestion_nonnegative:
  assumes "valid_random rnd"
  shows "0 \<le> answer (createMixedQuestion rnd ident d tlim)"
proof -
  have "valid_random (\<lambda>i. rnd (i + 5))" using assms by (simp add: valid_random_def)
  then have "0 < answer (createAdditionQuestion (\<lambda>i. rnd (i + 5)) ident d tlim)"
    by (rule createAdditionQuestion_positive)
  then show ?thesis
    by (simp add: createMixedQuestion_def Let_def split: prod.splits)
qed

lemma createMixedQuestion_precedence:
  assumes "valid_random rnd" and "qtype (createMixedQuestion rnd ident d tlim) = Mixed"
  shows "\<exists>a o1 b o2 c.
           qtext (createMixedQuestion rnd ident d tlim) = Expr [Num a, Op o1, Num b, Op o2, Num c]
           \<and> (\<not> (o1 = Times \<and> o2 = Times) \<longrightarrow>
                standardValue [Num a, Op o1, Num b, Op o2, Num c]
                  = Some (answer (createMixedQuestion rnd ident d tlim)))"
proof -
  have r: "0 \<le> rnd 0" "rnd 0 < 1" "0 \<le> rnd 1" "rnd 1 < 1"
    using assms(1) by (simp_all add: valid_random_def)
  obtain o1 where o1: "pick operations (randomInt (rnd 0) (int (length operations))) = Some o1"
    using pick_operations [OF r(1,2)] by blast
  obtain o2 where o2: "pick operations (randomInt (rnd 1) (int (length operations))) = Some o2"
    using pick_operations [OF r(3,4)] by blast
  have o1': "o1 = Plus \<or> o1 = Minus \<or> o1 = Times"
    using pick_in_set [OF o1] by (simp add: operations_def)
  have o2': "o2 = Plus \<or> o2 = Minus \<or> o2 = Times"
    using pick_in_set [OF o2] by (simp add: operations_def)
  show ?thesis
    using assms(2) o1' o2'
    unfolding createMixedQuestion_def Let_def o1 o2
    by (elim disjE) (simp_all add: standardValue_def qtype_simple split: if_splits)
qed

lemma createDivisionQuestion_exact:
  assumes "valid_random rnd"
  shows "\<exists>dividend divisor.
           qtext (createDivisionQuestion rnd ident d tlim) =
             Expr [Num dividend, Op DividedBy, Num divisor]
           \<and> 0 < divisor
           \<and> dividend mod divisor = 0
           \<and> dividend div divisor = answer (createDivisionQuestion rnd ident d tlim)
           \<and> real_of_int dividend / real_of_int divisor =
               real_of_int (answer (createDivisionQuestion rnd ident d tlim))"
proof -
  have r0: "0 \<le> rnd 0" "rnd 0 < 1" using assms by (simp_all add: valid_random_def)
  define divisor where "divisor = (case d of Easy \<Rightarrow> randomInt (rnd 0) 5 + 2
                             | Medium \<Rightarrow> randomInt (rnd 0) 8 + 2
                             | Hard \<Rightarrow> randomInt (rnd 0) 10 + 3)"
  define quotient where "quotient = (case d of Easy \<Rightarrow> randomInt (rnd 1) 10 + 1
                              | Medium \<Rightarrow> randomInt (rnd 1) 15 + 2
                              | Hard \<Rightarrow> randomInt (rnd 1) 20 + 5)"
  have pos: "0 < divisor"
    using randomInt_range [OF r0, of 5] randomInt_range [OF r0, of 8]
      randomInt_range [OF r0, of 10]
    by (cases d) (simp_all add: divisor_def)
  have shown: "qtext (createDivisionQuestion rnd ident d tlim) =
      Expr [Num (divisor * quotient), Op DividedBy, Num divisor]"
    by (simp add: createDivisionQuestion_def Let_def divisor_def quotient_def)
  have ans: "answer (createDivisionQuestion rnd ident d tlim) = quotient"
    by (simp add: createDivisionQuestion_def Let_def quotient_def)
  have "(divisor * quotient) mod divisor = 0" by simp
  moreover have "(divisor * quotient) div divisor = quotient" using pos by simp
  moreover have "real_of_int (divisor * quotient) / real_of_int divisor = real_of_int quotient"
    using pos by simp
  ultimately show ?thesis using shown ans pos by auto
qed

lemma division_from_generator:
  assumes "qtype (createQuestion rnd body ident ty d tlim) = Division"
  shows "createQuestion rnd body ident ty d tlim = createDivisionQuestion rnd ident d tlim"
proof (cases ty)
  case None
  then show ?thesis using assms by (simp add: createAdditionQuestion_def Let_def)
next
  case (Some t)
  have mixed: "qtype (createMixedQuestion rnd ident d tlim) \<noteq> Division"
    by (simp add: createMixedQuestion_def createAdditionQuestion_def Let_def split: prod.splits)
  show ?thesis using assms Some mixed
    by (cases t) (simp_all add: createAdditionQuestion_def createSubtractionQuestion_def
          createMultiplicationQuestion_def createFractionsQuestion_def
          createDecimalsQuestion_def createPercentagesQuestion_def createWordProblemQuestion_def
          createAlgebraQuestion_def createGeometryQuestion_def createOtherQuestion_def Let_def)
qed

text \<open>
  Claim C5. In every division question, whether built by \<open>createDivisionQuestion\<close> directly
  or returned by \<open>generateQuestion\<close> with type division, the text shows a dividend and a
  positive divisor with \<open>dividend % divisor = 0\<close>, and the stored answer is the quotient
  \<open>dividend / divisor\<close> (as an integer quotient and as a real one).
\<close>

theorem division_question_exact:
  assumes "valid_random rnd"
    and "q = createDivisionQuestion rnd ident d tlim
         \<or> (q = fst (generateQuestion rnd body now d w n) \<and> qtype q = Division)"
  shows "\<exists>dividend divisor.
           qtext q = Expr [Num dividend, Op DividedBy, Num divisor]
           \<and> 0 < divisor
           \<and> dividend mod divisor = 0
           \<and> dividend div divisor = answer q
           \<and> real_of_int dividend / real_of_int divisor = real_of_int (answer q)"
  using assms(2)
proof
  assume "q = createDivisionQuestion rnd ident d tlim"
  then show ?thesis using createDivisionQuestion_exact [OF assms(1)] by simp
next
  assume a: "q = fst (generateQuestion rnd body now d w n) \<and> qtype q = Division"
  have v: "valid_random (\<lambda>i. rnd (i + 1))"
    using assms(1) by (simp add: valid_random_def)
  obtain ty e i t where "q = createQuestion (\<lambda>i. rnd (i + 1)) body i ty e t"
    using a by (simp add: generateQuestion_def Let_def)
  then have "q = createDivisionQuestion (\<lambda>i. rnd (i + 1)) i e t"
    using a division_from_generator by metis
  then show ?thesis using createDivisionQuestion_exact [OF v] by simp
qed

theorem division_question_exact_witness:
  "valid_random (constantRandom (1 / 2))
   \<and> qtype (fst (generateQuestion (constantRandom (1 / 2)) (Prose [], 0) 0 Medium 5 0))
        = Division
   \<and> qtext (fst (generateQuestion (constantRandom (1 / 2)) (Prose [], 0) 0 Medium 5 0))
        = Expr [Num 54, Op DividedBy, Num 6]
   \<and> answer (fst (generateQuestion (constantRandom (1 / 2)) (Prose [], 0) 0 Medium 5 0)) = 9
   \<and> (54 :: int) mod 6 = 0 \<and> (54 :: int) div 6 = 9"
proof -
  let ?q = "fst (generateQuestion (constantRandom (1 / 2)) (Prose [], 0) 0 Medium 5 0)"
  have v: "valid_random (constantRandom (1 / 2))"
    by (simp add: valid_random_def constantRandom_def)
  have t: "qtype ?q = Division"
    by (simp add: generateQuestion_def adjustDifficultyForWave_def Let_def randomInt_def
      pick_def constantRandom_def qtype_simple)
  have shown: "qtext ?q = Expr [Num 54, Op DividedBy, Num 6]"
    by (simp add: generateQuestion_def adjustDifficultyForWave_def Let_def randomInt_def
      pick_def constantRandom_def createDivisionQuestion_def)
  have "?q = createDivisionQuestion (constantRandom (1 / 2)) (0, 0) Medium 0
        \<or> (?q = ?q \<and> qtype ?q = Division)"
    using t by simp
  from division_question_exact [OF v this] obtain dividend divisor where
    "qtext ?q = Expr [Num dividend, Op DividedBy, Num divisor]"
    "dividend mod divisor = 0" "dividend div divisor = answer ?q"
    by auto
  with shown have "(54 :: int) mod 6 = 0" "answer ?q = 54 div 6" by simp_all
  with v t shown show ?thesis by simp
qed

section \<open>Properties of the game state store\<close>

text \<open>
  Claim C4. On a correct answer the combo becomes \<open>c = combo + 1\<close>, the multiplier applied
  is \<open>floor(c / 5) + 1\<close>, which is 1 for \<open>c\<close> up to 4 and 2 for \<open>c\<close> from 5 to 9, and the
  score grows by the base points of the question's difficulty times that multiplier; the
  base points are 10, 20 and 30.
\<close>

theorem answerQuestion_combo_points:
  assumes "currentQuestion s = Some q" and "ans = answer q" and "0 \<le> combo s"
  shows "fst (answerQuestion ans s)
     \<and> combo (snd (answerQuestion ans s)) = combo s + 1
     \<and> score (snd (answerQuestion ans s)) =
         score s + basePoints (difficulty q) * ((combo s + 1) div 5 + 1)
     \<and> (combo s + 1 \<le> 4 \<longrightarrow> (combo s + 1) div 5 + 1 = 1)
     \<and> (5 \<le> combo s + 1 \<and> combo s + 1 \<le> 9 \<longrightarrow> (combo s + 1) div 5 + 1 = 2)
     \<and> basePoints Easy = 10 \<and> basePoints Medium = 20 \<and> basePoints Hard = 30"
proof -
  have "combo s + 1 \<le> 4 \<longrightarrow> (combo s + 1) div 5 + 1 = 1"
    using assms(3) by auto
  moreover have "5 \<le> combo s + 1 \<and> combo s + 1 \<le> 9 \<longrightarrow> (combo s + 1) div 5 + 1 = 2"
    by auto
  moreover have "fst (answerQuestion ans s)
     \<and> combo (snd (answerQuestion ans s)) = combo s + 1
     \<and> score (snd (answerQuestion ans s)) =
         score s + basePoints (difficulty q) * ((combo s + 1) div 5 + 1)"
    using assms(1,2) by (simp add: answerQuestion_def Let_def)
  moreover have "basePoints Easy = 10 \<and> basePoints Medium = 20 \<and> basePoints Hard = 30"
    by (simp add: basePoints_def)
  ultimately show ?thesis by blast
qed

lemma demoState_fields:
  "currentQuestion (demoState c) = Some demoQuestion" "combo (demoState c) = c"
  "score (demoState c) = 100" "answer demoQuestion = 5" "difficulty demoQuestion = Easy"
  by (simp_all add: demoState_def demoQuestion_def)

theorem answerQuestion_combo_points_witness:
  "score (snd (answerQuestion 5 (demoState 24))) = 100 + 10 * 6
   \<and> combo (snd (answerQuestion 5 (demoState 24))) = 25
   \<and> score (snd (answerQuestion 5 (demoState 2))) = 100 + 10 * 1
   \<and> score (snd (answerQuestion 5 (demoState 6))) = 100 + 10 * 2"
proof -
  have q: "\<And>c. currentQuestion (demoState c) = Some demoQuestion"
    by (simp add: demoState_fields)
  have a: "5 = answer demoQuestion" by (simp add: demoState_fields)
  have c: "0 \<le> combo (demoState 24)" "0 \<le> combo (demoState 2)" "0 \<le> combo (demoState 6)"
    by (simp_all add: demoState_fields)
  show ?thesis
    using answerQuestion_combo_points [OF q a c(1)] answerQuestion_combo_points [OF q a c(2)]
      answerQuestion_combo_points [OF q a c(3)]
    by (simp add: demoState_fields)
qed

text \<open>
  The unused utility \<open>getComboMultiplier\<close> grows by one half, not by one, every five
  combo points.
\<close>

lemma getComboMultiplier_values:
  "getComboMultiplier 4 = 1 \<and> getComboMultiplier 5 = 3 / 2 \<and> getComboMultiplier 10 = 2"
  by (simp add: getComboMultiplier_def)

section \<open>Properties of monsters\<close>

lemma demo_tank:
  "mtype (createMonster 0 demoRandom 5 Medium) = Tank"
  "mx (createMonster 0 demoRandom 5 Medium) = -250"
  "my (createMonster 0 demoRandom 5 Medium) = 300"
  "msize (createMonster 0 demoRandom 5 Medium) = 40"
  "spawnX (createMonster 0 demoRandom 5 Medium) = None"
  by (simp_all add: createMonster_def demoRandom_def generateMonsterSpawnPoint_def randomInt_def
       eligibleTypes_def pick_def Let_def CANVAS_WIDTH_def CANVAS_HEIGHT_def)

lemma createMonster_speed:
  "speed (createMonster t0 rnd wave d) =
     sqrt ((mx (createMonster t0 rnd wave d) - 400)\<^sup>2
           + (my (createMonster t0 rnd wave d) - 300)\<^sup>2) / 5000
     * (case mtype (createMonster t0 rnd wave d) of
          Tank \<Rightarrow> 9 / 10 | Boss \<Rightarrow> 8 / 10 | _ \<Rightarrow> 1)"
  by (simp add: createMonster_def Let_def CANVAS_WIDTH_def CANVAS_HEIGHT_def
       split: monster_type.splits option.splits)

lemma Monster_update_at_target:
  assumes "now - spawnTime m \<ge> 5000"
  shows "mx (data (Monster_update now dt p m)) = fst p
       \<and> my (data (Monster_update now dt p m)) = snd p"
proof -
  have "real_of_int (now - spawnTime m) / 5000 \<ge> 1" using assms by simp
  then have pr: "min (real_of_int (now - spawnTime m) / 5000) 1 = 1" by simp
  show ?thesis
    unfolding Monster_update_def Let_def pr
    by (simp split: option.splits prod.splits)
qed

lemma createMonster_simple:
  "mid (createMonster now rnd wave d) = (now, rnd 3)"
  "isDestroying (createMonster now rnd wave d) = False"
  "spawnX (createMonster now rnd wave d) = None"
  "spawnY (createMonster now rnd wave d) = None"
  "targetX (createMonster now rnd wave d) = 400"
  "targetY (createMonster now rnd wave d) = 300"
  by (simp_all add: createMonster_def Let_def CANVAS_WIDTH_def CANVAS_HEIGHT_def
      split: prod.splits)

lemma demo_basic:
  "mtype (createMonster now demoRandom 1 d) = Basic"
  "mx (createMonster now demoRandom 1 d) = -250"
  "my (createMonster now demoRandom 1 d) = 300"
  "msize (createMonster now demoRandom 1 d) = 25"
  "demoRandom 3 = 2 / 3"
  by (simp_all add: createMonster_def demoRandom_def generateMonsterSpawnPoint_def randomInt_def
       eligibleTypes_def pick_def Let_def CANVAS_WIDTH_def CANVAS_HEIGHT_def)

lemma isAttacking_iff:
  assumes "0 \<le> msize (data m) + r"
  shows "isAttacking m p r =
           ((mx (data m) - fst p)\<^sup>2 + (my (data m) - snd p)\<^sup>2 \<le> (msize (data m) + r)\<^sup>2)"
proof -
  have "sqrt ((msize (data m) + r)\<^sup>2) = msize (data m) + r" using assms by simp
  then have "(sqrt ((mx (data m) - fst p)\<^sup>2 + (my (data m) - snd p)\<^sup>2) \<le> msize (data m) + r)
      = (sqrt ((mx (data m) - fst p)\<^sup>2 + (my (data m) - snd p)\<^sup>2)
           \<le> sqrt ((msize (data m) + r)\<^sup>2))"
    by simp
  also have "\<dots> = ((mx (data m) - fst p)\<^sup>2 + (my (data m) - snd p)\<^sup>2 \<le> (msize (data m) + r)\<^sup>2)"
    by (rule real_sqrt_le_iff)
  finally show ?thesis by (simp add: createMonster_simple demo_basic isAttacking_def Let_def)
qed

text \<open>
  Claim C9. A tank or boss is created with the speed \<open>exactSpeed\<close> times 0.9 or 0.8
  (\<open>createMonster\<close> comments these lines "Slightly slower" and "Even slower"), so it
  should reach the avatar later than the 5000 ms of a basic or fast monster.
  \<open>Monster.update\<close> never reads the speed. The tank created at time 0 on the left edge
  has nine tenths of the speed of the basic monster created at the same point, and yet it
  is exactly at the avatar's position when \<open>update\<close> runs at time 5000, and the engine's
  test for reaching the player, \<open>isAttacking\<close>, already holds of it at time 4462, when it
  does not hold of the basic monster.
\<close>

theorem tank_reaches_no_later:
  "mtype (createMonster 0 demoRandom 5 Medium) = Tank
   \<and> mtype (createMonster 0 demoRandom 1 Medium) = Basic
   \<and> speed (createMonster 0 demoRandom 5 Medium)
       = speed (createMonster 0 demoRandom 1 Medium) * (9 / 10)
   \<and> mx (data (Monster_update 5000 16 (400, 300)
          (Monster_new 0 (createMonster 0 demoRandom 5 Medium)))) = 400
   \<and> my (data (Monster_update 5000 16 (400, 300)
          (Monster_new 0 (createMonster 0 demoRandom 5 Medium)))) = 300
   \<and> isAttacking (Monster_update 5000 16 (400, 300)
          (Monster_new 0 (createMonster 0 demoRandom 5 Medium))) (400, 300) PLAYER_RADIUS
   \<and> isAttacking (Monster_update 4462 16 (400, 300)
          (Monster_new 0 (createMonster 0 demoRandom 5 Medium))) (400, 300) PLAYER_RADIUS
   \<and> \<not> isAttacking (Monster_update 4462 16 (400, 300)
          (Monster_new 0 (createMonster 0 demoRandom 1 Medium))) (400, 300) PLAYER_RADIUS"
proof -
  have sp: "speed (createMonster 0 demoRandom 5 Medium)
       = speed (createMonster 0 demoRandom 1 Medium) * (9 / 10)"
    by (simp add: createMonster_speed demo_tank demo_basic)
  show ?thesis
    by (simp add: sp demo_tank demo_basic createMonster_simple Monster_update_def
         Monster_new_def isAttacking_iff PLAYER_RADIUS_def Let_def power2_eq_square)
qed

section \<open>Properties of the game engine\<close>

lemma findIndex_None_iff: "(findIndex P xs = None) = (\<forall>x\<in>set xs. \<not> P x)"
  by (induction xs) auto

lemma findIndex_Some:
  "findIndex P xs = Some i \<Longrightarrow> i < length xs \<and> P (xs ! i) \<and> (\<forall>j<i. \<not> P (xs ! j))"
proof (induction xs arbitrary: i)
  case Nil
  then show ?case by simp
next
  case (Cons x xs)
  show ?case
  proof (cases "P x")
    case True
    then show ?thesis using Cons.prems by simp
  next
    case False
    then obtain i' where i': "findIndex P xs = Some i'" "i = Suc i'"
      using Cons.prems by auto
    from Cons.IH [OF i'(1)] False i'(2) show ?thesis
      by (auto simp: nth_Cons split: nat.splits)
  qed
qed

lemma length_splice1: "i < length xs \<Longrightarrow> length (splice1 i xs) = length xs - 1"
  by (simp add: splice1_def)

lemma length_splice1_le: "length (splice1 i xs) \<le> length xs"
  by (simp add: splice1_def)

lemma destroyMonster_length:
  "length (monsters (destroyMonster now monsterId w s)) \<le> length (monsters s)"
  by (simp add: destroyMonster_def Let_def length_splice1_le split: option.splits)

lemma destroyMonster_lastSpawnTime:
  "lastSpawnTime (destroyMonster now monsterId w s) = lastSpawnTime s"
  by (simp add: destroyMonster_def Let_def split: option.splits)

lemma visit_length: "length (monsters (visit now dt k s)) \<le> length (monsters s)"
proof -
  have "\<And>s'. length (monsters s') = length (monsters s) \<Longrightarrow>
      length (monsters (destroyMonster now (mid (data (Monster_update now dt (playerPosition s) (monsters s ! k)))) False s')) \<le> length (monsters s)"
    using destroyMonster_length by metis
  then show ?thesis by (simp add: visit_def Let_def)
qed

lemma visit_lastSpawnTime: "lastSpawnTime (visit now dt k s) = lastSpawnTime s"
  by (simp add: visit_def Let_def destroyMonster_lastSpawnTime)

lemma forEachFrom_length:
  "length (monsters (forEachFrom now dt n k s)) \<le> length (monsters s)"
proof (induction n arbitrary: k s)
  case 0
  then show ?case by simp
next
  case (Suc n)
  have "length (monsters (if k < length (monsters s) then visit now dt k s else s))
          \<le> length (monsters s)"
    by (simp add: visit_length)
  with Suc.IH [of "Suc k" "if k < length (monsters s) then visit now dt k s else s"]
  show ?case by simp
qed

lemma forEachFrom_lastSpawnTime:
  "lastSpawnTime (forEachFrom now dt n k s) = lastSpawnTime s"
  by (induction n arbitrary: k s) (simp_all add: visit_lastSpawnTime)

lemma gameLoop_length: "length (monsters (gameLoop now frame s)) \<le> length (monsters s)"
  using forEachFrom_length [of now _ "length (monsters s)" 0 "s\<lparr>lastUpdateTime := now\<rparr>"]
  by (simp add: gameLoop_def update_def Let_def)

lemma gameLoop_lastSpawnTime: "lastSpawnTime (gameLoop now frame s) = lastSpawnTime s"
  by (simp add: gameLoop_def update_def Let_def forEachFrom_lastSpawnTime)

lemma cancelFrame_fields:
  "monsters (cancelFrame s) = monsters s" "lastSpawnTime (cancelFrame s) = lastSpawnTime s"
  by (simp_all add: cancelFrame_def split: option.splits)

lemma step_length:
  assumes "length (monsters s) \<le> 3"
  shows "length (monsters (step c s)) \<le> 3"
proof (cases c)
  case (Start now frame)
  have "length (monsters (gameLoop now frame (s\<lparr>isRunning := True, lastUpdateTime := now\<rparr>)))
          \<le> length (monsters s)"
    using gameLoop_length [of now frame "s\<lparr>isRunning := True, lastUpdateTime := now\<rparr>"] by simp
  then show ?thesis using Start assms by (simp add: start_def)
next
  case Pause
  then show ?thesis using assms by (simp add: pause_def cancelFrame_fields)
next
  case Stop
  then show ?thesis by (simp add: stop_def cancelFrame_fields)
next
  case (Frame now frame)
  then show ?thesis using assms gameLoop_length [of now frame s] by simp
next
  case Timer
  have "length (monsters (fireTimer s)) \<le> length (monsters s)"
    by (simp add: fireTimer_def destroyTimeout_def Let_def length_splice1_le
          split: list.splits option.splits prod.splits)
  then show ?thesis using Timer assms by simp
next
  case (SpawnNext now rnd wave d eq ans)
  then show ?thesis using assms
    by (simp add: spawnNextMonster_def spawnMonster_def Let_def)
next
  case (SpawnWave now rnd wave d)
  then show ?thesis using assms by (simp add: spawnWave_def spawnMonster_def Let_def)
next
  case (Destroy now monsterId w)
  then show ?thesis using assms destroyMonster_length [of now monsterId w s] by simp
next
  case (Damage now monsterId damage)
  have "length (monsters (snd (damageMonster now monsterId damage s))) \<le> length (monsters s)"
  proof (cases "findIndex (hasId monsterId) (monsters s)")
    case None
    then show ?thesis by (simp add: damageMonster_def)
  next
    case (Some i)
    let ?m = "snd (Monster_takeDamage damage (monsters s ! i))"
    have "length (monsters (destroyMonster now monsterId True (s\<lparr>monsters := (monsters s)[i := ?m]\<rparr>)))
            \<le> length (monsters s)"
      using destroyMonster_length [of now monsterId True "s\<lparr>monsters := (monsters s)[i := ?m]\<rparr>"]
      by simp
    then show ?thesis using Some
      by (simp add: damageMonster_def Let_def case_prod_beta)
  qed
  then show ?thesis using Damage assms by simp
qed

lemma run_length:
  "length (monsters s) \<le> 3 \<Longrightarrow> length (monsters (run cs s)) \<le> 3"
  by (induction cs arbitrary: s) (simp_all add: step_length)

lemma step_lastSpawnTime:
  "lastSpawnTime (step c s) =
     (case c of
        SpawnNext now rnd wave d eq ans \<Rightarrow>
          if length (monsters (step c s)) > length (monsters s) then now else lastSpawnTime s
      | _ \<Rightarrow> lastSpawnTime s)"
proof (cases c)
  case (SpawnNext now rnd wave d eq ans)
  then show ?thesis by (simp add: spawnNextMonster_def spawnMonster_def Let_def)
next
  case (Damage now monsterId damage)
  then show ?thesis
    by (simp add: damageMonster_def Let_def case_prod_beta destroyMonster_lastSpawnTime
          split: option.splits)
next
  case Timer
  then show ?thesis
    by (simp add: fireTimer_def destroyTimeout_def Let_def
          split: list.splits option.splits prod.splits)
qed (simp_all add: start_def pause_def stop_def cancelFrame_fields gameLoop_lastSpawnTime
       spawnWave_def
       spawnMonster_def Let_def destroyMonster_lastSpawnTime)

lemma spawnNextMonster_gap:
  assumes "length (monsters (spawnNextMonster now rnd wave d eq ans s)) > length (monsters s)"
  shows "now - lastSpawnTime s \<ge> 2000 \<and> length (monsters s) < 3
         \<and> lastSpawnTime (spawnNextMonster now rnd wave d eq ans s) = now"
  using assms by (simp add: spawnNextMonster_def spawnMonster_def Let_def split: if_splits)

lemma spawnTimes_spaced: "spaced (lastSpawnTime s # spawnTimes cs s)"
proof (induction cs arbitrary: s)
  case Nil
  then show ?case by simp
next
  case (Cons c cs)
  show ?case
  proof (cases c)
    case (SpawnNext now rnd wave d eq ans)
    let ?s' = "spawnNextMonster now rnd wave d eq ans s"
    show ?thesis
    proof (cases "length (monsters ?s') > length (monsters s)")
      case True
      from spawnNextMonster_gap [OF True] Cons.IH [of ?s'] True SpawnNext
      show ?thesis by simp
    next
      case False
      then have "lastSpawnTime ?s' = lastSpawnTime s"
        using step_lastSpawnTime [of c s] SpawnNext by simp
      with Cons.IH [of ?s'] False SpawnNext show ?thesis by simp
    qed
  next
    case (Start now frame)
    with Cons.IH [of "step c s"] step_lastSpawnTime [of c s] show ?thesis by simp
  next
    case Pause
    with Cons.IH [of "step c s"] step_lastSpawnTime [of c s] show ?thesis by simp
  next
    case Stop
    with Cons.IH [of "step c s"] step_lastSpawnTime [of c s] show ?thesis by simp
  next
    case (Frame now frame)
    with Cons.IH [of "step c s"] step_lastSpawnTime [of c s] show ?thesis by simp
  next
    case Timer
    with Cons.IH [of "step c s"] step_lastSpawnTime [of c s] show ?thesis by simp
  next
    case (SpawnWave now rnd wave d)
    with Cons.IH [of "step c s"] step_lastSpawnTime [of c s] show ?thesis by simp
  next
    case (Destroy now monsterId w)
    with Cons.IH [of "step c s"] step_lastSpawnTime [of c s] show ?thesis by simp
  next
    case (Damage now monsterId damage)
    with Cons.IH [of "step c s"] step_lastSpawnTime [of c s] show ?thesis by simp
  qed
qed

lemma spaced_tail: "spaced (t # ts) \<Longrightarrow> spaced ts"
  by (cases ts) simp_all

text \<open>
  Claim C10. \<open>spawnNextMonster\<close> adds a monster only when fewer than 3 monsters are in the
  list and at least 2000 ms have passed since \<open>lastSpawnTime\<close>. Hence, from a list of at
  most 3 monsters, no sequence of engine calls without a direct \<open>spawnMonster\<close> makes the
  list longer than 3, and the clock readings of any two consecutive spawns made through
  \<open>spawnNextMonster\<close> in such a sequence are at least 2000 ms apart.
\<close>

theorem spawnNextMonster_invariants:
  assumes "length (monsters s) \<le> 3"
  shows "length (monsters (spawnNextMonster now rnd wave d eq ans s)) \<le> 3
       \<and> (length (monsters (spawnNextMonster now rnd wave d eq ans s)) > length (monsters s)
            \<longrightarrow> length (monsters s) < 3 \<and> now - lastSpawnTime s \<ge> 2000)
       \<and> length (monsters (run cs s)) \<le> 3
       \<and> spaced (spawnTimes cs s)"
proof -
  have "length (monsters (spawnNextMonster now rnd wave d eq ans s)) \<le> 3"
    using step_length [OF assms, of "SpawnNext now rnd wave d eq ans"] by simp
  moreover have "length (monsters (spawnNextMonster now rnd wave d eq ans s)) > length (monsters s)
            \<longrightarrow> length (monsters s) < 3 \<and> now - lastSpawnTime s \<ge> 2000"
    using spawnNextMonster_gap by blast
  moreover have "length (monsters (run cs s)) \<le> 3" using assms by (rule run_length)
  moreover have "spaced (spawnTimes cs s)"
    using spawnTimes_spaced [of s cs] by (rule spaced_tail)
  ultimately show ?thesis by blast
qed

lemma demoCalls_values:
  "length (monsters (run demoCalls (GameEngine_new 0))) = 3"
  "spawnTimes demoCalls (GameEngine_new 0) = [2000, 4000, 6000]"
  by (simp_all add: demoCalls_def GameEngine_new_def spawnNextMonster_def spawnMonster_def
        Let_def)

theorem spawnNextMonster_invariants_witness:
  "length (monsters (GameEngine_new 0)) \<le> 3
   \<and> length (monsters (run demoCalls (GameEngine_new 0))) = 3
   \<and> spawnTimes demoCalls (GameEngine_new 0) = [2000, 4000, 6000]
   \<and> spaced (spawnTimes demoCalls (GameEngine_new 0))"
proof -
  have h: "length (monsters (GameEngine_new 0)) \<le> 3" by (simp add: GameEngine_new_def)
  from spawnNextMonster_invariants [OF h, of 0 demoRandom 1 Easy None None demoCalls]
  show ?thesis using h demoCalls_values by simp
qed

lemma demoSpawned_fields:
  "monsters demoSpawned = [Monster_new 0 (createMonster 0 demoRandom 1 Easy)]"
  "events demoSpawned = [StateUpdate]"
  "timers demoSpawned = []"
  "isRunning demoSpawned"
  "playerPosition demoSpawned = (400, 300)"
  by (simp_all add: createMonster_simple demo_basic demoSpawned_def spawnMonster_def start_def gameLoop_def update_def
        GameEngine_new_def Let_def CANVAS_WIDTH_def CANVAS_HEIGHT_def)

lemma demoDestroying_fields:
  "monsters demoDestroying =
     [\<lparr>data = (createMonster 0 demoRandom 1 Easy)
               \<lparr>isDestroying := True, destructionStartTime := Some 100\<rparr>, spawnTime = 0\<rparr>]"
  "events demoDestroying = [StateUpdate]"
  "timers demoDestroying = [(900, (0, 2 / 3))]"
  by (simp_all add: createMonster_simple demo_basic demoDestroying_def destroyMonster_def demoSpawned_fields Monster_new_def
        hasId_def Let_def)

text \<open>
  Claim C6, as stated, fails: \<open>destroyMonster(id, false)\<close> on the monster of
  \<open>demoDestroying\<close>, which is already being destroyed, removes it from the list and fires
  the destroyed callback.
\<close>

theorem destroying_monster_removed_counterexample:
  "length (monsters demoDestroying) = 1
   \<and> isDestroying (data (monsters demoDestroying ! 0))
   \<and> mid (data (monsters demoDestroying ! 0)) = (0, 2 / 3)
   \<and> monsters (destroyMonster 200 (0, 2 / 3) False demoDestroying) = []
   \<and> events (destroyMonster 200 (0, 2 / 3) False demoDestroying) =
       events demoDestroying @ [MonsterDestroyed (0, 2 / 3)]"
  by (simp add: createMonster_simple demo_basic demoDestroying_fields destroyMonster_def hasId_def splice1_def Let_def)

text \<open>
  Claim C6, amended. \<open>destroyMonster\<close> with an id that no monster of the list has changes
  nothing: the state, with its list, timers and event log, is the same. With
  \<open>withAnimation = false\<close> and an id in the list, \<open>destroyMonster\<close> removes the first
  monster with that id at once and fires the destroyed callback, whether or not that
  monster is already being destroyed.
\<close>

theorem destroyMonster_unknown_or_immediate:
  "((\<forall>m \<in> set (monsters s). mid (data m) \<noteq> monsterId) \<longrightarrow>
      destroyMonster now monsterId withAnimation s = s)
   \<and> (findIndex (hasId monsterId) (monsters s) = Some i \<longrightarrow>
        monsters (destroyMonster now monsterId False s) = splice1 i (monsters s)
        \<and> length (monsters (destroyMonster now monsterId False s)) = length (monsters s) - 1
        \<and> events (destroyMonster now monsterId False s) =
            events s @ [MonsterDestroyed monsterId]
        \<and> timers (destroyMonster now monsterId False s) = timers s)"
proof -
  have "(\<forall>m \<in> set (monsters s). mid (data m) \<noteq> monsterId) \<longrightarrow>
      destroyMonster now monsterId withAnimation s = s"
  proof
    assume "\<forall>m \<in> set (monsters s). mid (data m) \<noteq> monsterId"
    then have "findIndex (hasId monsterId) (monsters s) = None"
      by (simp add: createMonster_simple demo_basic findIndex_None_iff hasId_def)
    then show "destroyMonster now monsterId withAnimation s = s"
      by (simp add: createMonster_simple demo_basic destroyMonster_def)
  qed
  moreover have "findIndex (hasId monsterId) (monsters s) = Some i \<longrightarrow>
        monsters (destroyMonster now monsterId False s) = splice1 i (monsters s)
        \<and> length (monsters (destroyMonster now monsterId False s)) = length (monsters s) - 1
        \<and> events (destroyMonster now monsterId False s) =
            events s @ [MonsterDestroyed monsterId]
        \<and> timers (destroyMonster now monsterId False s) = timers s"
    using findIndex_Some [of "hasId monsterId" "monsters s" i]
    by (simp add: createMonster_simple demo_basic destroyMonster_def Let_def length_splice1)
  ultimately show ?thesis by blast
qed

theorem destroyMonster_unknown_or_immediate_witness:
  "monsterIds demoDestroying = [(0, 2 / 3)]
   \<and> destroyMonster 200 (7, 0) True demoDestroying = demoDestroying
   \<and> findIndex (hasId (0, 2 / 3)) (monsters demoDestroying) = Some 0
   \<and> monsters (destroyMonster 200 (0, 2 / 3) False demoDestroying) = []
   \<and> events (destroyMonster 200 (0, 2 / 3) False demoDestroying) =
       [StateUpdate, MonsterDestroyed (0, 2 / 3)]"
proof -
  have a: "\<forall>m \<in> set (monsters demoDestroying). mid (data m) \<noteq> (7, 0)"
    by (simp add: createMonster_simple demo_basic demoDestroying_fields)
  have b: "findIndex (hasId (0, 2 / 3)) (monsters demoDestroying) = Some 0"
    by (simp add: createMonster_simple demo_basic demoDestroying_fields hasId_def)
  have c: "monsterIds demoDestroying = [(0, 2 / 3)]"
    by (simp add: createMonster_simple demo_basic monsterIds_def demoDestroying_fields)
  show ?thesis
    using a b c destroyMonster_unknown_or_immediate [of demoDestroying "(7, 0)" 200 True 0]
      destroyMonster_unknown_or_immediate [of demoDestroying "(0, 2 / 3)" 200 True 0]
    by (simp add: createMonster_simple demo_basic demoDestroying_fields splice1_def)
qed

lemma demoTicked_fields:
  "monsterPositions demoTicked = [(-120, 300)]"
  "map spawnTime (monsters demoTicked) = [0]"
  "isRunning demoTicked"
  "events demoTicked = [StateUpdate, PositionUpdated (0, 2 / 3)]"
  by (simp_all add: createMonster_simple demo_basic monsterPositions_def demoTicked_def gameLoop_def update_def visit_def demoSpawned_fields
        Monster_new_def Monster_update_def isAttacking_iff PLAYER_RADIUS_def Let_def)

lemma demoPaused_monsters:
  "monsters (pause demoTicked) = monsters demoTicked"
  "playerPosition (pause demoTicked) = (400, 300)"
  "playerPosition demoTicked = (400, 300)"
  "monsters demoTicked =
     [\<lparr>data = (createMonster 0 demoRandom 1 Easy)
          \<lparr>mx := -120, my := 300, targetX := 400, targetY := 300,
            spawnX := Some (-250), spawnY := Some 300\<rparr>, spawnTime = 0\<rparr>]"
  by (simp_all add: createMonster_simple demo_basic pause_def cancelFrame_def demoTicked_def gameLoop_def update_def visit_def
        demoSpawned_fields Monster_new_def Monster_update_def isAttacking_iff PLAYER_RADIUS_def
        Let_def split: option.splits)

text \<open>
  \<open>pause\<close> leaves the monster list as it is and clears \<open>isRunning\<close> and the handle of
  the requested frame; a frame callback that runs while the engine is paused changes
  nothing.
\<close>

lemma pause_stops_ticks:
  "monsters (pause s) = monsters s
   \<and> \<not> isRunning (pause s)
   \<and> (animationId (pause s) = None \<or> animationId (pause s) = Some 0)
   \<and> gameLoop now frame (pause s) = pause s"
proof -
  have a: "monsters (pause s) = monsters s" "\<not> isRunning (pause s)"
    "animationId (pause s) = None \<or> animationId (pause s) = Some 0"
    by (auto simp: pause_def cancelFrame_def split: option.splits)
  have "gameLoop now frame (pause s) = pause s"
    using a(2) by (simp add: gameLoop_def)
  then show ?thesis using a by blast
qed

text \<open>
  \<open>start\<close> sets \<open>lastUpdateTime\<close> to the clock, so the tick it runs passes the elapsed
  time 0 to \<open>update\<close>, and \<open>gameLoop\<close> caps the elapsed time of every tick; but no
  function that \<open>update\<close> calls reads the elapsed time.
\<close>

lemma visit_deltaTime: "visit now dt k s = visit now dt' k s"
  by (simp add: createMonster_simple demo_basic visit_def Monster_update_def Let_def)

lemma forEachFrom_deltaTime: "forEachFrom now dt n k s = forEachFrom now dt' n k s"
  by (induction n arbitrary: k s) (simp_all add: createMonster_simple demo_basic visit_deltaTime [of _ dt _ _ dt'])

text \<open>
  Claim C8. After pausing and starting again, every monster should continue from the
  position and travel progress it had when the engine was paused. \<open>Monster.update\<close>
  computes the progress from the clock and the spawn time alone. The monster of
  \<open>demoTicked\<close>, spawned at time 0, is at \<open>(-120, 300)\<close> after the tick at time 1000. The
  engine is paused and started again at time 3000: the tick that \<open>start\<close> runs puts the
  monster at \<open>(140, 300)\<close>, where two more seconds of travel take it, and not at the
  position it had when the engine was paused.
\<close>

theorem pause_resume_jump:
  "isRunning demoTicked
   \<and> monsterPositions demoTicked = [(-120, 300)]
   \<and> \<not> isRunning (pause demoTicked)
   \<and> monsterPositions (pause demoTicked) = [(-120, 300)]
   \<and> monsterPositions (start 3000 3 (pause demoTicked))
        = [(140, 300)]"
proof -
  have "monsterPositions (start 3000 3 (pause demoTicked))
        = [(140, 300)]"
    by (simp add: createMonster_simple demo_basic monsterPositions_def start_def gameLoop_def update_def visit_def demoPaused_monsters
        Monster_update_def isAttacking_iff PLAYER_RADIUS_def Let_def)
  moreover have "\<not> isRunning (pause demoTicked)"
    by (simp add: createMonster_simple demo_basic pause_def cancelFrame_def split: option.splits)
  ultimately show ?thesis
    by (simp add: createMonster_simple demo_basic monsterPositions_def demoTicked_fields [unfolded monsterPositions_def] demoPaused_monsters(1))
qed

lemma reachedIds_append: "reachedIds (xs @ ys) = reachedIds xs @ reachedIds ys"
  by (induction xs rule: reachedIds.induct) simp_all

lemma Monster_update_mid: "mid (data (Monster_update now dt p m)) = mid (data m)"
  by (simp add: createMonster_simple demo_basic Monster_update_def Let_def split: prod.splits)

lemma drop_splice1:
  assumes "j \<le> k" "j < length xs"
  shows "drop (Suc k) (splice1 j xs) = drop (Suc (Suc k)) xs"
proof -
  have "length (take j xs) = j" using assms(2) by simp
  then have "drop (Suc k) (take j xs @ drop (Suc j) xs) = drop (Suc k - j) (drop (Suc j) xs)"
    using assms(1) by simp
  also have "\<dots> = drop (Suc (Suc k)) xs"
    using assms(1) by (simp add: createMonster_simple demo_basic Suc_diff_le)
  finally show ?thesis by (simp add: createMonster_simple demo_basic splice1_def)
qed

lemma findIndex_le:
  assumes "k < length xs" "P (xs ! k)"
  shows "\<exists>j. findIndex P xs = Some j \<and> j \<le> k \<and> j < length xs"
proof (cases "findIndex P xs")
  case None
  then have "\<not> P (xs ! k)" using assms(1) by (simp add: createMonster_simple demo_basic findIndex_None_iff)
  then show ?thesis using assms(2) by simp
next
  case (Some j)
  from findIndex_Some [OF Some] have j: "j < length xs" "\<forall>j'<j. \<not> P (xs ! j')" by simp_all
  have "j \<le> k"
  proof (rule ccontr)
    assume "\<not> j \<le> k"
    then have "k < j" by simp
    then show False using j(2) assms(2) by blast
  qed
  then show ?thesis using Some j(1) by simp
qed

lemma visit_cases:
  assumes "k < length (monsters s)"
  shows "visit now dt k s = s
       \<or> (events (visit now dt k s) = events s @ [PositionUpdated (monsterIds s ! k)]
           \<and> monsterIds (visit now dt k s) = monsterIds s)
       \<or> (\<exists>d. events (visit now dt k s) =
                 events s @ [PositionUpdated (monsterIds s ! k),
                             MonsterReachPlayer (monsterIds s ! k) d,
                             MonsterDestroyed (monsterIds s ! k)]
              \<and> drop (Suc k) (monsterIds (visit now dt k s)) = drop (Suc (Suc k)) (monsterIds s))"
proof -
  let ?m = "monsters s ! k"
  let ?m' = "Monster_update now dt (playerPosition s) ?m"
  let ?i = "mid (data ?m)"
  let ?ms' = "(monsters s)[k := ?m']"
  have ik: "monsterIds s ! k = ?i" using assms by (simp add: createMonster_simple demo_basic monsterIds_def)
  have ids': "map (\<lambda>m. mid (data m)) ?ms' = monsterIds s"
    using assms
    by (simp add: createMonster_simple demo_basic monsterIds_def list_eq_iff_nth_eq nth_list_update Monster_update_mid)
  show ?thesis
  proof (cases "isDestroying (data ?m)")
    case True
    then show ?thesis by (simp add: createMonster_simple demo_basic visit_def Let_def)
  next
    case nd: False
    show ?thesis
    proof (cases "isAttacking ?m' (playerPosition s) PLAYER_RADIUS")
      case False
      then have "visit now dt k s =
          s\<lparr>monsters := ?ms', events := events s @ [PositionUpdated ?i]\<rparr>"
        using nd by (simp add: createMonster_simple demo_basic visit_def Let_def Monster_update_mid)
      then show ?thesis using ik ids' by (simp add: createMonster_simple demo_basic monsterIds_def)
    next
      case True
      let ?d = "getMonsterDamage (mtype (data ?m'))"
      let ?s2 = "s\<lparr>monsters := ?ms',
                    events := events s @ [PositionUpdated ?i, MonsterReachPlayer ?i ?d]\<rparr>"
      have v: "visit now dt k s = destroyMonster now ?i False ?s2"
        using nd True by (simp add: createMonster_simple demo_basic visit_def Let_def Monster_update_mid)
      have "hasId ?i (?ms' ! k)" using assms by (simp add: createMonster_simple demo_basic hasId_def Monster_update_mid)
      moreover have "k < length ?ms'" using assms by simp
      ultimately obtain j where j: "findIndex (hasId ?i) ?ms' = Some j" "j \<le> k" "j < length ?ms'"
        using findIndex_le [of k ?ms' "hasId ?i"] by blast
      have ev: "events (visit now dt k s) =
          events s @ [PositionUpdated ?i, MonsterReachPlayer ?i ?d, MonsterDestroyed ?i]"
        unfolding v using j(1) by (simp add: createMonster_simple demo_basic destroyMonster_def Let_def)
      have mo: "monsters (visit now dt k s) = splice1 j ?ms'"
        unfolding v using j(1) by (simp add: createMonster_simple demo_basic destroyMonster_def Let_def)
      have "drop (Suc k) (monsterIds (visit now dt k s)) =
          map (\<lambda>m. mid (data m)) (drop (Suc k) (splice1 j ?ms'))"
        by (simp add: createMonster_simple demo_basic monsterIds_def mo drop_map)
      also have "\<dots> = map (\<lambda>m. mid (data m)) (drop (Suc (Suc k)) ?ms')"
        using drop_splice1 [OF j(2,3)] by simp
      also have "\<dots> = drop (Suc (Suc k)) (monsterIds s)"
        using ids' by (simp add: createMonster_simple demo_basic drop_map [symmetric] del: drop_update_cancel)
      finally show ?thesis using ev ik by auto
    qed
  qed
qed


lemma subseq_drop_Suc:
  assumes "subseq r (drop (Suc k) xs)"
  shows "subseq r (drop k xs)"
proof (cases "k < length xs")
  case True
  then have "drop k xs = xs ! k # drop (Suc k) xs" by (simp add: createMonster_simple demo_basic Cons_nth_drop_Suc)
  moreover have "subseq r (xs ! k # drop (Suc k) xs)"
    using assms by (rule list_emb_Cons)
  ultimately show ?thesis by simp
next
  case False
  then show ?thesis using assms by simp
qed

lemma forEachFrom_blocks:
  "\<exists>bs. events (forEachFrom now dt n k s) = events s @ concat bs
        \<and> (\<forall>b \<in> set bs. visitBlock b)
        \<and> subseq (reachedIds (concat bs)) (drop k (monsterIds s))"
proof (induction n arbitrary: k s)
  case 0
  have "events (forEachFrom now dt 0 k s) = events s @ concat []
        \<and> (\<forall>b \<in> set []. visitBlock b)
        \<and> subseq (reachedIds (concat [])) (drop k (monsterIds s))"
    by simp
  then show ?case by (rule exI)
next
  case (Suc n)
  define s' where "s' = (if k < length (monsters s) then visit now dt k s else s)"
  have run: "forEachFrom now dt (Suc n) k s = forEachFrom now dt n (Suc k) s'"
    by (simp add: createMonster_simple demo_basic s'_def)
  from Suc.IH [of "Suc k" s']
  obtain bs where bs: "events (forEachFrom now dt n (Suc k) s') = events s' @ concat bs"
    "\<forall>b \<in> set bs. visitBlock b"
    "subseq (reachedIds (concat bs)) (drop (Suc k) (monsterIds s'))"
    by blast
  have same: ?case if eq: "s' = s"
  proof -
    have "subseq (reachedIds (concat bs)) (drop k (monsterIds s))"
      using bs(3) unfolding eq by (rule subseq_drop_Suc)
    moreover have "events (forEachFrom now dt (Suc n) k s) = events s @ concat bs"
      using bs(1) unfolding run eq .
    ultimately have "events (forEachFrom now dt (Suc n) k s) = events s @ concat bs
        \<and> (\<forall>b \<in> set bs. visitBlock b)
        \<and> subseq (reachedIds (concat bs)) (drop k (monsterIds s))"
      using bs(2) by simp
    then show ?thesis by (rule exI)
  qed
  show ?case
  proof (cases "k < length (monsters s)")
    case False
    then have "s' = s" by (simp add: createMonster_simple demo_basic s'_def)
    then show ?thesis by (rule same)
  next
    case True
    then have s': "s' = visit now dt k s" by (simp add: createMonster_simple demo_basic s'_def)
    define i where "i = monsterIds s ! k"
    have "k < length (monsterIds s)" using True by (simp add: createMonster_simple demo_basic monsterIds_def)
    then have dk: "drop k (monsterIds s) = i # drop (Suc k) (monsterIds s)"
      unfolding i_def by (rule Cons_nth_drop_Suc [symmetric])
    from visit_cases [OF True, of now dt]
    consider (skip) "visit now dt k s = s"
      | (moved) "events (visit now dt k s) = events s @ [PositionUpdated i]"
          "monsterIds (visit now dt k s) = monsterIds s"
      | (hit) d where "events (visit now dt k s) =
                 events s @ [PositionUpdated i, MonsterReachPlayer i d, MonsterDestroyed i]"
          "drop (Suc k) (monsterIds (visit now dt k s)) = drop (Suc (Suc k)) (monsterIds s)"
      unfolding i_def by blast
    then show ?thesis
    proof cases
      case skip
      then have "s' = s" using s' by simp
      then show ?thesis by (rule same)
    next
      case moved
      define cs where "cs = [PositionUpdated i] # bs"
      have e: "events (forEachFrom now dt (Suc n) k s) = events s @ concat cs"
        using bs(1) unfolding run s' moved(1) cs_def by simp
      have b: "\<forall>b \<in> set cs. visitBlock b"
        using bs(2) by (auto simp: visitBlock_def cs_def)
      have "subseq (reachedIds (concat bs)) (drop (Suc k) (monsterIds s))"
        using bs(3) unfolding s' moved(2) .
      then have "subseq (reachedIds (concat bs)) (drop k (monsterIds s))"
        by (rule subseq_drop_Suc)
      then have r: "subseq (reachedIds (concat cs)) (drop k (monsterIds s))"
        by (simp add: createMonster_simple demo_basic cs_def)
      from e b r have "events (forEachFrom now dt (Suc n) k s) = events s @ concat cs
        \<and> (\<forall>b \<in> set cs. visitBlock b)
        \<and> subseq (reachedIds (concat cs)) (drop k (monsterIds s))"
        by simp
      then show ?thesis by (rule exI)
    next
      case hit
      define cs where
        "cs = [PositionUpdated i, MonsterReachPlayer i d, MonsterDestroyed i] # bs"
      have e: "events (forEachFrom now dt (Suc n) k s) = events s @ concat cs"
        using bs(1) unfolding run s' hit(1) cs_def by simp
      have b: "\<forall>b \<in> set cs. visitBlock b"
        using bs(2) by (auto simp: visitBlock_def cs_def)
      have "subseq (reachedIds (concat bs)) (drop (Suc (Suc k)) (monsterIds s))"
        using bs(3) unfolding s' hit(2) .
      then have "subseq (reachedIds (concat bs)) (drop (Suc k) (monsterIds s))"
        by (rule subseq_drop_Suc)
      then have r: "subseq (reachedIds (concat cs)) (drop k (monsterIds s))"
        unfolding dk by (simp add: createMonster_simple demo_basic cs_def)
      from e b r have "events (forEachFrom now dt (Suc n) k s) = events s @ concat cs
        \<and> (\<forall>b \<in> set cs. visitBlock b)
        \<and> subseq (reachedIds (concat cs)) (drop k (monsterIds s))"
        by simp
      then show ?thesis by (rule exI)
    qed
  qed
qed

lemma visit_destroying:
  assumes "isDestroying (data (monsters s ! k))"
  shows "visit now dt k s = s"
  using assms by (simp add: visit_def Let_def)

lemma visit_miss:
  assumes "\<not> isDestroying (data (monsters s ! k))"
    and "\<not> isAttacking (Monster_update now dt (playerPosition s) (monsters s ! k))
            (playerPosition s) PLAYER_RADIUS"
  shows "visit now dt k s =
           s\<lparr>monsters := (monsters s)
                 [k := Monster_update now dt (playerPosition s) (monsters s ! k)],
             events := events s @ [PositionUpdated (mid (data (monsters s ! k)))]\<rparr>"
  using assms by (simp add: visit_def Let_def Monster_update_mid)

lemma visit_hit:
  assumes "k < length (monsters s)"
    and "\<not> isDestroying (data (monsters s ! k))"
    and "isAttacking (Monster_update now dt (playerPosition s) (monsters s ! k))
            (playerPosition s) PLAYER_RADIUS"
  shows "\<exists>j \<le> k. visit now dt k s =
           s\<lparr>monsters := splice1 j ((monsters s)
                 [k := Monster_update now dt (playerPosition s) (monsters s ! k)]),
             events := events s @
               [PositionUpdated (mid (data (monsters s ! k))),
                MonsterReachPlayer (mid (data (monsters s ! k)))
                  (getMonsterDamage (mtype (data
                     (Monster_update now dt (playerPosition s) (monsters s ! k))))),
                MonsterDestroyed (mid (data (monsters s ! k)))]\<rparr>"
proof -
  let ?m' = "Monster_update now dt (playerPosition s) (monsters s ! k)"
  let ?i = "mid (data (monsters s ! k))"
  let ?ms' = "(monsters s)[k := ?m']"
  let ?d = "getMonsterDamage (mtype (data ?m'))"
  let ?s2 = "s\<lparr>monsters := ?ms',
                events := events s @ [PositionUpdated ?i, MonsterReachPlayer ?i ?d]\<rparr>"
  have v: "visit now dt k s = destroyMonster now ?i False ?s2"
    using assms(2,3) by (simp add: visit_def Let_def Monster_update_mid)
  have "hasId ?i (?ms' ! k)" using assms(1) by (simp add: hasId_def Monster_update_mid)
  moreover have "k < length ?ms'" using assms(1) by simp
  ultimately obtain j where j: "findIndex (hasId ?i) ?ms' = Some j" "j \<le> k"
    using findIndex_le [of k ?ms' "hasId ?i"] by blast
  have "visit now dt k s =
      s\<lparr>monsters := splice1 j ?ms',
        events := events s @ [PositionUpdated ?i, MonsterReachPlayer ?i ?d, MonsterDestroyed ?i]\<rparr>"
    unfolding v using j(1) by (simp add: destroyMonster_def Let_def)
  then show ?thesis using j(2) by blast
qed

lemma forEachFrom_tickLog:
  assumes "length (monsters s) \<le> n + k"
  shows "events (forEachFrom now dt n k s) =
           events s @ tickLog now dt (playerPosition s) (drop k (monsters s))"
  using assms
proof (induction n arbitrary: k s)
  case 0
  then show ?case by simp
next
  case (Suc n)
  show ?case
  proof (cases "k < length (monsters s)")
    case False
    then have "events (forEachFrom now dt (Suc n) k s) = events (forEachFrom now dt n (Suc k) s)"
      by simp
    also have "\<dots> = events s @ tickLog now dt (playerPosition s) (drop (Suc k) (monsters s))"
      using False by (intro Suc.IH) simp
    finally show ?thesis using False by simp
  next
    case True
    let ?m = "monsters s ! k"
    let ?m' = "Monster_update now dt (playerPosition s) ?m"
    let ?p = "playerPosition s"
    have dk: "drop k (monsters s) = ?m # drop (Suc k) (monsters s)"
      using True by (rule Cons_nth_drop_Suc [symmetric])
    have run: "forEachFrom now dt (Suc n) k s = forEachFrom now dt n (Suc k) (visit now dt k s)"
      using True by simp
    show ?thesis
    proof (cases "isDestroying (data ?m)")
      case True
      then have v: "visit now dt k s = s" by (rule visit_destroying)
      have "events (forEachFrom now dt n (Suc k) s) =
          events s @ tickLog now dt ?p (drop (Suc k) (monsters s))"
        using Suc.prems by (intro Suc.IH) simp
      then show ?thesis unfolding run v dk using True by simp
    next
      case nd: False
      show ?thesis
      proof (cases "isAttacking ?m' ?p PLAYER_RADIUS")
        case False
        note v = visit_miss [OF nd False]
        have "events (forEachFrom now dt n (Suc k) (visit now dt k s)) =
            events (visit now dt k s)
              @ tickLog now dt (playerPosition (visit now dt k s))
                  (drop (Suc k) (monsters (visit now dt k s)))"
          using Suc.prems by (intro Suc.IH) (simp add: v)
        also have "\<dots> = events s @ PositionUpdated (mid (data ?m))
              # tickLog now dt ?p (drop (Suc k) (monsters s))"
          by (simp add: v)
        finally show ?thesis unfolding run dk using nd False
          by (simp add: Let_def Monster_update_mid)
      next
        case True
        from visit_hit [OF \<open>k < length (monsters s)\<close> nd True]
        obtain j where j: "j \<le> k" and v: "visit now dt k s =
           s\<lparr>monsters := splice1 j ((monsters s) [k := ?m']),
             events := events s @
               [PositionUpdated (mid (data ?m)),
                MonsterReachPlayer (mid (data ?m)) (getMonsterDamage (mtype (data ?m'))),
                MonsterDestroyed (mid (data ?m))]\<rparr>"
          by blast
        have jl: "j < length ((monsters s)[k := ?m'])"
          using j \<open>k < length (monsters s)\<close> by simp
        have dr: "drop (Suc k) (monsters (visit now dt k s)) = drop (Suc (Suc k)) (monsters s)"
          using drop_splice1 [OF j jl] by (simp add: v)
        have "length (monsters (visit now dt k s)) \<le> n + Suc k"
          using Suc.prems jl by (simp add: v length_splice1)
        then have "events (forEachFrom now dt n (Suc k) (visit now dt k s)) =
            events (visit now dt k s)
              @ tickLog now dt (playerPosition (visit now dt k s))
                  (drop (Suc k) (monsters (visit now dt k s)))"
          by (rule Suc.IH)
        also have "\<dots> = events s @
               [PositionUpdated (mid (data ?m)),
                MonsterReachPlayer (mid (data ?m)) (getMonsterDamage (mtype (data ?m'))),
                MonsterDestroyed (mid (data ?m))]
               @ tickLog now dt ?p (drop (Suc (Suc k)) (monsters s))"
          unfolding dr by (simp add: v)
        finally show ?thesis unfolding run dk using nd True
          by (simp add: Let_def Monster_update_mid drop_Suc [symmetric] drop_tl [symmetric])
      qed
    qed
  qed
qed


text \<open>
  Claim C7, amended. Within one tick the position updates and the collision callbacks are
  interleaved monster by monster, in list order. A visit of a monster that is not being
  destroyed updates its position and then tests it for collision; when it collides, its
  reached-player callback, with the damage of its type, and its destroyed callback fire
  at once and it leaves the list, before any later monster is updated; when it does not,
  the visit changes nothing else. The events of the tick are those of these visits in
  list order, so the reached-player callbacks of the tick fire in the order of the
  monster list.
\<close>

theorem tick_interleaves_updates_and_callbacks:
  "events (update now dt s) = events s @ tickLog now dt (playerPosition s) (monsters s)
   \<and> (\<exists>bs. events (update now dt s) = events s @ concat bs
        \<and> (\<forall>b \<in> set bs. visitBlock b)
        \<and> subseq (reachedIds (concat bs)) (monsterIds s))
   \<and> (k < length (monsters s) \<longrightarrow>
        (isDestroying (data (monsters s ! k)) \<longrightarrow> visit now dt k s = s)
      \<and> (\<not> isDestroying (data (monsters s ! k))
          \<and> \<not> isAttacking (Monster_update now dt (playerPosition s) (monsters s ! k))
                (playerPosition s) PLAYER_RADIUS \<longrightarrow>
          visit now dt k s =
            s\<lparr>monsters := (monsters s)
                  [k := Monster_update now dt (playerPosition s) (monsters s ! k)],
              events := events s @ [PositionUpdated (mid (data (monsters s ! k)))]\<rparr>)
      \<and> (\<not> isDestroying (data (monsters s ! k))
          \<and> isAttacking (Monster_update now dt (playerPosition s) (monsters s ! k))
                (playerPosition s) PLAYER_RADIUS \<longrightarrow>
          (\<exists>j \<le> k. visit now dt k s =
             s\<lparr>monsters := splice1 j ((monsters s)
                   [k := Monster_update now dt (playerPosition s) (monsters s ! k)]),
               events := events s @
                 [PositionUpdated (mid (data (monsters s ! k))),
                  MonsterReachPlayer (mid (data (monsters s ! k)))
                    (getMonsterDamage (mtype (data
                       (Monster_update now dt (playerPosition s) (monsters s ! k))))),
                  MonsterDestroyed (mid (data (monsters s ! k)))]\<rparr>)))"
proof -
  have a: "events (update now dt s) = events s @ tickLog now dt (playerPosition s) (monsters s)"
    using forEachFrom_tickLog [of s "length (monsters s)" 0 now dt]
    by (simp add: update_def)
  have b: "\<exists>bs. events (update now dt s) = events s @ concat bs
        \<and> (\<forall>b \<in> set bs. visitBlock b)
        \<and> subseq (reachedIds (concat bs)) (monsterIds s)"
    using forEachFrom_blocks [of now dt "length (monsters s)" 0 s]
    by (simp add: update_def)
  show ?thesis
    using a b visit_destroying [of s k now dt] visit_miss [of s k now dt]
      visit_hit [of k s now dt]
    by blast
qed

lemma demoThree_fields:
  "monsters demoThree =
     [Monster_new 0 (createMonster 0 demoRandom 1 Easy),
      Monster_new 2000 (createMonster 2000 demoRandom 1 Easy),
      Monster_new 4000 (createMonster 4000 demoRandom 1 Easy)]"
  "events demoThree = [StateUpdate, StateUpdate, StateUpdate]"
  "isRunning demoThree"
  "playerPosition demoThree = (400, 300)"
  by (simp_all add: createMonster_simple demo_basic demoThree_def spawnMonster_def demoSpawned_fields)

lemma demoThree_tick:
  "events (update 5000 0 demoThree) =
     events demoThree @
       [PositionUpdated (0, 2 / 3), MonsterReachPlayer (0, 2 / 3) 1,
        MonsterDestroyed (0, 2 / 3), PositionUpdated (4000, 2 / 3)]"
  "monsterIds (update 5000 0 demoThree) = [(2000, 2 / 3), (4000, 2 / 3)]"
  "monsterPositions (update 5000 0 demoThree) = [(-250, 300), (-120, 300)]"
  by (simp_all add: createMonster_simple demo_basic monsterIds_def monsterPositions_def update_def visit_def demoThree_fields Monster_new_def Monster_update_def
        isAttacking_iff PLAYER_RADIUS_def destroyMonster_def hasId_def splice1_def Let_def)

text \<open>
  Claim C7, as stated, fails. In the tick of \<open>demoThree\<close> at time 5000 the first monster
  reaches the avatar: its callbacks fire, and only then is the third monster's position
  updated. (The second monster is not visited in this tick at all: the removal of the
  first moves it to index 0, which \<open>forEach\<close> has already passed.)
\<close>

theorem updates_before_callbacks_counterexample:
  "monsterIds demoThree = [(0, 2 / 3), (2000, 2 / 3), (4000, 2 / 3)]
   \<and> monsterPositions demoThree = [(-250, 300), (-250, 300), (-250, 300)]
   \<and> monsterIds (update 5000 0 demoThree) = [(2000, 2 / 3), (4000, 2 / 3)]
   \<and> monsterPositions (update 5000 0 demoThree) = [(-250, 300), (-120, 300)]
   \<and> events (update 5000 0 demoThree) =
       events demoThree @
         [PositionUpdated (0, 2 / 3), MonsterReachPlayer (0, 2 / 3) 1,
          MonsterDestroyed (0, 2 / 3), PositionUpdated (4000, 2 / 3)]
   \<and> \<not> updatesBeforeCallbacks
         [PositionUpdated (0, 2 / 3), MonsterReachPlayer (0, 2 / 3) 1,
          MonsterDestroyed (0, 2 / 3), PositionUpdated (4000, 2 / 3)]"
  by (simp add: createMonster_simple demo_basic demoThree_tick)
     (simp add: createMonster_simple demo_basic monsterIds_def monsterPositions_def demoThree_fields Monster_new_def)

lemma demoThree_tickLog:
  "tickLog 5000 0 (400, 300) (monsters demoThree) =
     [PositionUpdated (0, 2 / 3), MonsterReachPlayer (0, 2 / 3) 1,
      MonsterDestroyed (0, 2 / 3), PositionUpdated (4000, 2 / 3)]"
  by (simp add: createMonster_simple demo_basic demoThree_fields Monster_new_def
        Monster_update_def isAttacking_iff PLAYER_RADIUS_def Let_def)

lemma demoThree_first:
  "\<not> isDestroying (data (monsters demoThree ! 0))"
  "isAttacking (Monster_update 5000 0 (playerPosition demoThree) (monsters demoThree ! 0))
     (playerPosition demoThree) PLAYER_RADIUS"
  "mid (data (monsters demoThree ! 0)) = (0, 2 / 3)"
  "getMonsterDamage (mtype (data
      (Monster_update 5000 0 (playerPosition demoThree) (monsters demoThree ! 0)))) = 1"
  "length (monsters demoThree) = 3"
  by (simp_all add: createMonster_simple demo_basic demoThree_fields Monster_new_def
        Monster_update_def isAttacking_iff PLAYER_RADIUS_def Let_def)

theorem tick_interleaves_updates_and_callbacks_witness:
  "events (update 5000 0 demoThree) =
     events demoThree @
       [PositionUpdated (0, 2 / 3), MonsterReachPlayer (0, 2 / 3) 1,
        MonsterDestroyed (0, 2 / 3), PositionUpdated (4000, 2 / 3)]
   \<and> events (visit 5000 0 0 demoThree) =
       events demoThree @
         [PositionUpdated (0, 2 / 3), MonsterReachPlayer (0, 2 / 3) 1,
          MonsterDestroyed (0, 2 / 3)]
   \<and> length (monsters (visit 5000 0 0 demoThree)) = 2
   \<and> subseq [(0, 2 / 3)] (monsterIds demoThree)"
proof -
  note t = tick_interleaves_updates_and_callbacks [of 5000 0 demoThree 0]
  have p: "playerPosition demoThree = (400, 300)" by (rule demoThree_fields(4))
  have e: "events (update 5000 0 demoThree) =
     events demoThree @
       [PositionUpdated (0, 2 / 3), MonsterReachPlayer (0, 2 / 3) 1,
        MonsterDestroyed (0, 2 / 3), PositionUpdated (4000, 2 / 3)]"
    using t demoThree_tickLog unfolding p by simp
  from t obtain bs where bs: "events (update 5000 0 demoThree) = events demoThree @ concat bs"
    "subseq (reachedIds (concat bs)) (monsterIds demoThree)"
    by blast
  have "concat bs = [PositionUpdated (0, 2 / 3), MonsterReachPlayer (0, 2 / 3) 1,
        MonsterDestroyed (0, 2 / 3), PositionUpdated (4000, 2 / 3)]"
    using bs(1) e by simp
  then have sub: "subseq [(0, 2 / 3)] (monsterIds demoThree)" using bs(2) by simp
  from t demoThree_first obtain j where "j \<le> (0::nat)" and v: "visit 5000 0 0 demoThree =
             demoThree\<lparr>monsters := splice1 j ((monsters demoThree)
                   [0 := Monster_update 5000 0 (playerPosition demoThree) (monsters demoThree ! 0)]),
               events := events demoThree @
                 [PositionUpdated (0, 2 / 3), MonsterReachPlayer (0, 2 / 3) 1,
                  MonsterDestroyed (0, 2 / 3)]\<rparr>"
    by auto
  then have j: "j = 0" by simp
  have "events (visit 5000 0 0 demoThree) = events demoThree @
         [PositionUpdated (0, 2 / 3), MonsterReachPlayer (0, 2 / 3) 1,
          MonsterDestroyed (0, 2 / 3)]"
    by (simp add: v)
  moreover have "length (monsters (visit 5000 0 0 demoThree)) = 2"
    by (simp add: v j splice1_def demoThree_first(5))
  ultimately show ?thesis using e sub by simp
qed

end
